theory Spec2Isabelle
  imports Main
begin

section \<open>Python strings\<close>

text \<open>
  A Python \<^verbatim>\<open>str\<close> is modelled as a HOL \<^typ>\<open>string\<close> whose characters are read as the
  code points 0..255. The predicates below are the Python ones restricted to that range:
  \<^verbatim>\<open>str.isspace\<close> (used by \<^verbatim>\<open>strip()\<close> and \<^verbatim>\<open>split()\<close>), and the
  character classes \<^verbatim>\<open>[0-9]\<close> and \<^verbatim>\<open>[a-zA-Z]\<close> of the \<^verbatim>\<open>re\<close> module.
\<close>

definition py_isspace :: "char \<Rightarrow> bool" where
  "py_isspace c =
     (let n = (of_char c :: nat)
      in (9 \<le> n \<and> n \<le> 13) \<or> (28 \<le> n \<and> n \<le> 32) \<or> n = 133 \<or> n = 160)"

definition is_digit :: "char \<Rightarrow> bool" where
  "is_digit c = (let n = (of_char c :: nat) in 48 \<le> n \<and> n \<le> 57)"

definition is_alpha :: "char \<Rightarrow> bool" where
  "is_alpha c =
     (let n = (of_char c :: nat) in (97 \<le> n \<and> n \<le> 122) \<or> (65 \<le> n \<and> n \<le> 90))"

text \<open>\<^verbatim>\<open>s.strip()\<close>\<close>

definition py_strip :: "string \<Rightarrow> string" where
  "py_strip s = rev (dropWhile py_isspace (rev (dropWhile py_isspace s)))"

text \<open>
  \<^verbatim>\<open>s.split(sep)\<close> for a one-character separator, generalised to a predicate on the
  separating character. The result always has at least one element.
\<close>

fun split_where :: "(char \<Rightarrow> bool) \<Rightarrow> string \<Rightarrow> string list" where
  "split_where p [] = [[]]"
| "split_where p (c # cs) =
     (if p c then [] # split_where p cs
      else (case split_where p cs of
              [] \<Rightarrow> [[c]]
            | x # xs \<Rightarrow> (c # x) # xs))"

definition py_split :: "char \<Rightarrow> string \<Rightarrow> string list" where
  "py_split sep s = split_where (\<lambda>c. c = sep) s"

text \<open>\<^verbatim>\<open>s.split()\<close>: split at runs of whitespace, no empty pieces.\<close>

definition py_split_ws :: "string \<Rightarrow> string list" where
  "py_split_ws s = filter (\<lambda>w. w \<noteq> []) (split_where py_isspace s)"

text \<open>\<^verbatim>\<open>s.startswith(p)\<close> and \<^verbatim>\<open>sub in s\<close>\<close>

definition startswith :: "string \<Rightarrow> string \<Rightarrow> bool" where
  "startswith s p = (take (length p) s = p)"

fun contains :: "string \<Rightarrow> string \<Rightarrow> bool" where
  "contains sub [] = (sub = [])"
| "contains sub (c # cs) = (startswith (c # cs) sub \<or> contains sub cs)"

text \<open>
  \<^verbatim>\<open>int(s)\<close> in base 10. CPython drops the surrounding whitespace of the C locale
  (tab to carriage return, and the space) and the two other spaces of the range,
  which it first turns into a space; the separators with the codes 28 to 31, which
  \<^verbatim>\<open>strip()\<close> drops, are not dropped here. One sign is allowed, the digits may be
  grouped by single underscores, and (CPython's default limit for \<^verbatim>\<open>str\<close> to
  \<^verbatim>\<open>int\<close> conversion) more than 4300 digits raise \<^verbatim>\<open>ValueError\<close> as every other
  malformed input does. \<open>None\<close> stands for the \<^verbatim>\<open>ValueError\<close>.
\<close>

definition int_isspace :: "char \<Rightarrow> bool" where
  "int_isspace c =
     (let n = (of_char c :: nat)
      in (9 \<le> n \<and> n \<le> 13) \<or> n = 32 \<or> n = 133 \<or> n = 160)"

definition digits_value :: "string \<Rightarrow> int" where
  "digits_value ds = foldl (\<lambda>acc c. 10 * acc + (of_char c - 48)) 0 ds"

definition py_int :: "string \<Rightarrow> int option" where
  "py_int s =
     (let t = rev (dropWhile int_isspace (rev (dropWhile int_isspace s)));
          neg = (case t of [] \<Rightarrow> False | c # _ \<Rightarrow> c = CHR ''-'');
          u = (case t of [] \<Rightarrow> [] | c # r \<Rightarrow> if c = CHR ''-'' \<or> c = CHR ''+'' then r else t);
          groups = py_split (CHR ''_'') u
      in if list_all (\<lambda>g. g \<noteq> [] \<and> list_all is_digit g) groups
            \<and> length (concat groups) \<le> 4300
         then Some ((if neg then - 1 else 1) * digits_value (concat groups))
         else None)"

text \<open>
  \<^verbatim>\<open>re.match(r'^...$', s)\<close>: in Python \<^verbatim>\<open>$\<close> matches at the end of the string and
  also just before a newline that ends the string.
\<close>

definition dollar :: "(string \<Rightarrow> bool) \<Rightarrow> string \<Rightarrow> bool" where
  "dollar body s = (body s \<or> (s \<noteq> [] \<and> last s = CHR 0x0A \<and> body (butlast s)))"

text \<open>\<^verbatim>\<open>^[a-zA-Z]{1,4}$\<close>\<close>

definition re_match_obfuscated :: "string \<Rightarrow> bool" where
  "re_match_obfuscated s =
     dollar (\<lambda>b. 1 \<le> length b \<and> length b \<le> 4 \<and> list_all is_alpha b) s"

text \<open>\<^verbatim>\<open>^(field_|method_|func_)[0-9]+_[a-zA-Z]$\<close>\<close>

definition flat_token :: "string \<Rightarrow> bool" where
  "flat_token b =
     list_ex (\<lambda>p. startswith b p \<and>
        (let r = drop (length p) b;
             ds = takeWhile is_digit r;
             t = dropWhile is_digit r
         in ds \<noteq> [] \<and>
            (case t of [u, l] \<Rightarrow> u = CHR ''_'' \<and> is_alpha l | _ \<Rightarrow> False)))
       [''field_'', ''method_'', ''func_'']"

definition re_match_searge_member :: "string \<Rightarrow> bool" where
  "re_match_searge_member s = dollar flat_token s"

section \<open>The naming schemes and the engine\<close>

datatype MappingsType = MOJANG | YARN | INTERMEDIARY | SEARGE

text \<open>\<^verbatim>\<open>mapping_type.name\<close>\<close>

fun name_of :: "MappingsType \<Rightarrow> string" where
  "name_of MOJANG = ''MOJANG''"
| "name_of YARN = ''YARN''"
| "name_of INTERMEDIARY = ''INTERMEDIARY''"
| "name_of SEARGE = ''SEARGE''"

definition POTENTIAL_NAME_CELL_CLASS :: string where
  "POTENTIAL_NAME_CELL_CLASS = ''F''"

text \<open>
  The dictionary \<^verbatim>\<open>self.detected_selectors\<close>: its five keys are created by the
  constructor and no key is ever removed, so it is a record.
\<close>

record selectors =
  class_name_markers :: "MappingsType \<rightharpoonup> string"
  obfuscated_class_marker :: "string option"
  searge_class_marker :: "string option"
  field_method_table_class :: "string option"
  name_container_cell_class :: string

record Mappings =
  version :: string
  mapping_type_requested :: MappingsType
  field_mappings :: "string \<rightharpoonup> string"
  method_mappings :: "string \<rightharpoonup> string"
  mapping_class_name :: "string option"
  obfuscated_class_name :: "string option"
  detected_selectors :: selectors

text \<open>
  The dictionary returned by \<^verbatim>\<open>get()\<close>, with its keys \<^verbatim>\<open>class_name\<close>,
  \<^verbatim>\<open>obfuscated_class_name\<close>, \<^verbatim>\<open>fields\<close> and \<^verbatim>\<open>methods\<close>.
\<close>

record MappingResult =
  res_class_name :: "string option"
  res_obfuscated_class_name :: "string option"
  res_fields :: "string \<rightharpoonup> string"
  res_methods :: "string \<rightharpoonup> string"

subsection \<open>Construction\<close>

datatype py_exception = IndexError | ValueError

datatype warning = CouldNotParseMinorVersion string py_exception

datatype init_error = InvalidMappingTypeError string MappingsType

text \<open>
  The \<^verbatim>\<open>try\<close> block of the constructor: \<^verbatim>\<open>version.split('.')[1]\<close> raises
  \<^verbatim>\<open>IndexError\<close> when there is no second component, \<^verbatim>\<open>int\<close> raises \<^verbatim>\<open>ValueError\<close>.
\<close>

definition minor_version :: "string \<Rightarrow> py_exception + int" where
  "minor_version v =
     (case py_split (CHR ''.'') v of
        _ # minor_version_str # _ \<Rightarrow>
          (case py_int minor_version_str of
             None \<Rightarrow> Inl ValueError
           | Some n \<Rightarrow> Inr n)
      | _ \<Rightarrow> Inl IndexError)"

definition new_engine :: "string \<Rightarrow> MappingsType \<Rightarrow> Mappings" where
  "new_engine v mapping_type =
     \<lparr> version = v,
       mapping_type_requested = mapping_type,
       field_mappings = Map.empty,
       method_mappings = Map.empty,
       mapping_class_name = None,
       obfuscated_class_name = None,
       detected_selectors =
         \<lparr> class_name_markers = Map.empty,
           obfuscated_class_marker = None,
           searge_class_marker = None,
           field_method_table_class = None,
           name_container_cell_class = POTENTIAL_NAME_CELL_CLASS \<rparr> \<rparr>"

text \<open>
  \<^verbatim>\<open>Mappings.__init__\<close>. The result is the raised \<^verbatim>\<open>InvalidMappingTypeError\<close>, or the
  warnings printed together with the constructed engine. The constructor takes no
  document and no network: it reads its two arguments only.
\<close>

definition Mappings_init :: "string \<Rightarrow> MappingsType \<Rightarrow> init_error + (warning list \<times> Mappings)" where
  "Mappings_init v mapping_type =
     (case minor_version v of
        Inr minor \<Rightarrow>
          if minor < 15 \<and> mapping_type \<noteq> SEARGE
          then Inl (InvalidMappingTypeError v mapping_type)
          else Inr ([], new_engine v mapping_type)
      | Inl e \<Rightarrow> Inr ([CouldNotParseMinorVersion v e], new_engine v mapping_type))"

section \<open>Documents\<close>

text \<open>
  The tree that \<^verbatim>\<open>html.fromstring\<close> returns: elements with a tag, attributes in the
  order of the markup, and children; text is a child node, as in the XPath data model.
  Comments and processing instructions are not represented. The XPath queries of the
  source interpolate marker strings between apostrophes; the model reads
  \<^verbatim>\<open>@class='m'\<close> as equality with \<open>m\<close>, which is what the query means for every
  \<open>m\<close> without an apostrophe.
\<close>

datatype node = Element string "(string \<times> string) list" "node list" | Text string

fun is_element :: "string \<Rightarrow> node \<Rightarrow> bool" where
  "is_element t (Element t' _ _) = (t' = t)"
| "is_element t (Text _) = False"

fun children :: "node \<Rightarrow> node list" where
  "children (Element _ _ cs) = cs"
| "children (Text _) = []"

text \<open>\<^verbatim>\<open>element.get(name)\<close>\<close>

fun get_attr :: "node \<Rightarrow> string \<Rightarrow> string option" where
  "get_attr (Element _ as _) a = map_of as a"
| "get_attr (Text _) a = None"

text \<open>\<^verbatim>\<open>element.text_content()\<close>\<close>

fun text_content :: "node \<Rightarrow> string" where
  "text_content (Text s) = s"
| "text_content (Element _ _ cs) = concat (map text_content cs)"

text \<open>
  An element together with what the XPath axes of the source need: its preceding
  siblings, its following siblings and its ancestors (nearest first).
\<close>

record loc =
  item :: node
  preceding_siblings :: "node list"
  following_siblings :: "node list"
  ancestors :: "node list"

text \<open>All elements of a subtree in document order, the root of the subtree first.\<close>

fun locate :: "node list \<Rightarrow> node list \<Rightarrow> node list \<Rightarrow> node \<Rightarrow> loc list"
  and locate_children :: "node list \<Rightarrow> node list \<Rightarrow> node list \<Rightarrow> loc list" where
  "locate anc pre fol (Text _) = []"
| "locate anc pre fol (Element t as cs) =
     \<lparr> item = Element t as cs, preceding_siblings = pre,
       following_siblings = fol, ancestors = anc \<rparr>
     # locate_children (Element t as cs # anc) [] cs"
| "locate_children anc pre [] = []"
| "locate_children anc pre (c # cs) =
     locate anc pre cs c @ locate_children anc (pre @ [c]) cs"

text \<open>\<^verbatim>\<open>tree.xpath('//*')\<close> and \<^verbatim>\<open>element.xpath('.//*')\<close>\<close>

definition all_elements :: "node \<Rightarrow> loc list" where
  "all_elements tree = locate [] [] [] tree"

definition descendants :: "node \<Rightarrow> loc list" where
  "descendants n = locate_children [n] [] (children n)"

text \<open>\<^verbatim>\<open>element.xpath('.//t')\<close>\<close>

definition xpath_descendant :: "string \<Rightarrow> node \<Rightarrow> node list" where
  "xpath_descendant t n = map item (filter (\<lambda>l. is_element t (item l)) (descendants n))"

text \<open>\<^verbatim>\<open>element.xpath('./t')\<close>\<close>

definition xpath_child :: "string \<Rightarrow> node \<Rightarrow> node list" where
  "xpath_child t n = filter (is_element t) (children n)"

text \<open>\<^verbatim>\<open>td[@class]\<close> and \<^verbatim>\<open>td[@class='m']\<close>\<close>

definition td_with_class :: "node \<Rightarrow> bool" where
  "td_with_class n = (is_element ''td'' n \<and> get_attr n ''class'' \<noteq> None)"

definition td_class_is :: "string \<Rightarrow> node \<Rightarrow> bool" where
  "td_class_is m n = (is_element ''td'' n \<and> get_attr n ''class'' = Some m)"

text \<open>
  \<^verbatim>\<open>ctx.xpath(".//td[P]/following-sibling::td[@class='F']")\<close>: the name cells below
  \<open>ctx\<close> that have an earlier sibling cell satisfying \<open>P\<close>, in document order.
\<close>

definition name_cells_after :: "(node \<Rightarrow> bool) \<Rightarrow> node \<Rightarrow> node list" where
  "name_cells_after P ctx =
     map item
       (filter (\<lambda>l. list_ex P (preceding_siblings l))
          (filter (\<lambda>l. td_class_is POTENTIAL_NAME_CELL_CLASS (item l)) (descendants ctx)))"

text \<open>
  \<^verbatim>\<open>tree.xpath("//table[.//td[@class and following-sibling::td[@class='F']]]")\<close>
\<close>

definition definition_tables :: "node \<Rightarrow> node list" where
  "definition_tables tree =
     filter (\<lambda>table. list_ex (\<lambda>d. list_ex (td_class_is POTENTIAL_NAME_CELL_CLASS)
                                    (following_siblings d))
                     (filter (\<lambda>d. td_with_class (item d)) (descendants table)))
       (filter (is_element ''table'') (map item (all_elements tree)))"

text \<open>\<^verbatim>\<open>tree.xpath("//h4[text()='heading']")\<close>\<close>

definition summary_h4 :: "string \<Rightarrow> node \<Rightarrow> loc list" where
  "summary_h4 heading tree =
     filter (\<lambda>l. list_ex (\<lambda>c. c = Text heading) (children (item l)))
       (filter (\<lambda>l. is_element ''h4'' (item l)) (all_elements tree))"

text \<open>Python truthiness of a value that is \<^verbatim>\<open>None\<close> or a string, and \<^verbatim>\<open>a or b\<close>.\<close>

definition truthy :: "string option \<Rightarrow> bool" where
  "truthy m = (case m of None \<Rightarrow> False | Some s \<Rightarrow> s \<noteq> [])"

definition py_or :: "string option \<Rightarrow> string option \<Rightarrow> string option" where
  "py_or a b = (if truthy a then a else b)"

section \<open>Selector detection\<close>

text \<open>
  The body of the loop over the rows of the class-definition table. The loop state is
  the selector dictionary and the local set \<^verbatim>\<open>found_types_for_class_names\<close>; the source
  uses the member \<open>SEARGE\<close> of that set as the flag of the obfuscated marker.
\<close>

definition detect_row :: "node \<Rightarrow> selectors \<times> MappingsType set \<Rightarrow> selectors \<times> MappingsType set" where
  "detect_row row st =
     (let sel = fst st; found = snd st; cells = xpath_child ''td'' row
      in if length cells = 2 then
           (let marker_cell = cells ! 0; name_cell = cells ! 1
            in case get_attr marker_cell ''class'' of
                 None \<Rightarrow> st
               | Some marker_class \<Rightarrow>
                   if marker_class = [] \<or> get_attr name_cell ''class'' \<noteq> Some POTENTIAL_NAME_CELL_CLASS
                   then st
                   else
                     (let class_name_text = py_strip (text_content name_cell)
                      in if class_name_text = [] then st
                         else if length class_name_text \<le> 4 \<and> re_match_obfuscated class_name_text then
                           (if SEARGE \<notin> found
                            then (sel\<lparr>obfuscated_class_marker := Some marker_class\<rparr>, insert SEARGE found)
                            else st)
                         else if startswith class_name_text ''net.minecraft.''
                                 \<or> startswith class_name_text ''com.mojang.'' then
                           (if contains ''Client'' class_name_text \<or> contains ''Impl'' class_name_text then
                              (if YARN \<notin> found
                               then (sel\<lparr>class_name_markers := (class_name_markers sel)(YARN \<mapsto> marker_class)\<rparr>,
                                     insert YARN found)
                               else st)
                            else if contains ''class_'' class_name_text then
                              (if INTERMEDIARY \<notin> found
                               then (sel\<lparr>class_name_markers := (class_name_markers sel)(INTERMEDIARY \<mapsto> marker_class)\<rparr>,
                                     insert INTERMEDIARY found)
                               else st)
                            else
                              (if MOJANG \<notin> found
                               then (sel\<lparr>class_name_markers := (class_name_markers sel)(MOJANG \<mapsto> marker_class)\<rparr>,
                                     insert MOJANG found)
                               else if searge_class_marker sel = None
                               then (sel\<lparr>searge_class_marker := Some marker_class,
                                         class_name_markers := (class_name_markers sel)(SEARGE \<mapsto> marker_class)\<rparr>,
                                     found)
                               else st))
                         else st))
         else st)"

definition detect_rows :: "node list \<Rightarrow> selectors \<times> MappingsType set \<Rightarrow> selectors \<times> MappingsType set" where
  "detect_rows rows st = fold detect_row rows st"

text \<open>
  \<^verbatim>\<open>h4[0].xpath("./following-sibling::table[1]")\<close> followed by \<^verbatim>\<open>.get('class')\<close>, for the
  first heading with the given text: the class attribute when there is such a heading,
  a table after it and a non-empty attribute.
\<close>

definition summary_table_class :: "string \<Rightarrow> node \<Rightarrow> string option" where
  "summary_table_class heading tree =
     (case summary_h4 heading tree of
        [] \<Rightarrow> None
      | h # _ \<Rightarrow>
          (case find (is_element ''table'') (following_siblings h) of
             None \<Rightarrow> None
           | Some next_table \<Rightarrow>
               if truthy (get_attr next_table ''class'') then get_attr next_table ''class'' else None))"

definition common_table_class :: "node \<Rightarrow> string option" where
  "common_table_class tree =
     (case summary_table_class ''Field summary'' tree of
        Some c \<Rightarrow> Some c
      | None \<Rightarrow> summary_table_class ''Method summary'' tree)"

text \<open>\<^verbatim>\<open>Mappings._detect_selectors\<close>\<close>

definition detect_selectors :: "Mappings \<Rightarrow> node \<Rightarrow> Mappings" where
  "detect_selectors self tree =
     (case definition_tables tree of
        [] \<Rightarrow> self
      | class_def_table # _ \<Rightarrow>
          (let rows = xpath_descendant ''tr'' class_def_table;
               sel = fst (detect_rows rows (detected_selectors self, {}))
           in self\<lparr>detected_selectors :=
                     (case common_table_class tree of
                        None \<Rightarrow> sel
                      | Some c \<Rightarrow> sel\<lparr>field_method_table_class := Some c\<rparr>)\<rparr>))"

section \<open>Extraction\<close>

text \<open>\<^verbatim>\<open>Mappings.get\<close>\<close>

definition get :: "Mappings \<Rightarrow> MappingResult" where
  "get self =
     \<lparr> res_class_name = mapping_class_name self,
       res_obfuscated_class_name = obfuscated_class_name self,
       res_fields = field_mappings self,
       res_methods = method_mappings self \<rparr>"

text \<open>
  The exceptions that leave \<^verbatim>\<open>fetch\<close>. \<open>RequestFailed\<close> is whatever
  \<^verbatim>\<open>requests.get\<close>, \<^verbatim>\<open>raise_for_status\<close> or \<^verbatim>\<open>html.fromstring\<close> raised; the next five
  are the \<^verbatim>\<open>ValueError\<close>s of the source in the order of their \<^verbatim>\<open>raise\<close> statements,
  with the values their messages interpolate; \<open>XPathEvalError\<close> is raised by lxml for
  the expression \<^verbatim>\<open>table[]\<close>.
\<close>

datatype fetch_error =
    RequestFailed string
  | ObfuscatedMarkerNotDetected
  | MarkerNotDetected string
  | DefinitionTableNotFound
  | ObfuscatedNameNotFound string
  | MappingNameNotFound string string
  | XPathEvalError

text \<open>
  The site: what requesting a URL and parsing the response gives, an exception
  (its message) or the parsed tree.
\<close>

type_synonym web = "string \<Rightarrow> string + node"

text \<open>\<^verbatim>\<open>f'https://mappings.dev/{self.version}/{class_path.replace(".", "/")}.html'\<close>\<close>

definition url_of :: "Mappings \<Rightarrow> string \<Rightarrow> string" where
  "url_of self class_path =
     ''https://mappings.dev/'' @ version self @ ''/''
       @ map (\<lambda>c. if c = CHR ''.'' then CHR ''/'' else c) class_path @ ''.html''"

text \<open>
  The marker of the requested scheme's class name (the \<^verbatim>\<open>if\<close> statement that assigns
  \<^verbatim>\<open>requested_type_marker_class\<close> in \<^verbatim>\<open>fetch\<close>).
\<close>

definition requested_type_marker_class :: "Mappings \<Rightarrow> string option" where
  "requested_type_marker_class self =
     (if mapping_type_requested self = SEARGE
      then py_or (searge_class_marker (detected_selectors self))
                 (class_name_markers (detected_selectors self) MOJANG)
      else class_name_markers (detected_selectors self) (mapping_type_requested self))"

text \<open>
  The part of \<^verbatim>\<open>fetch\<close> from reading the obfuscated marker to storing the two class
  names. The engine is returned as the exception, if any, leaves it: the obfuscated
  class name is stored before the requested scheme's name is looked for.
\<close>

definition extract_class_names :: "Mappings \<Rightarrow> node \<Rightarrow> Mappings \<times> fetch_error option" where
  "extract_class_names self tree =
     (case obfuscated_class_marker (detected_selectors self) of
        None \<Rightarrow> (self, Some ObfuscatedMarkerNotDetected)
      | Some obf_marker \<Rightarrow>
          if obf_marker = [] then (self, Some ObfuscatedMarkerNotDetected)
          else
            (case requested_type_marker_class self of
               None \<Rightarrow> (self, Some (MarkerNotDetected (name_of (mapping_type_requested self))))
             | Some requested_marker \<Rightarrow>
                 if requested_marker = []
                 then (self, Some (MarkerNotDetected (name_of (mapping_type_requested self))))
                 else
                   (case find (\<lambda>l. td_class_is obf_marker (item l)) (all_elements tree) of
                      None \<Rightarrow> (self, Some DefinitionTableNotFound)
                    | Some obf_class_marker_td \<Rightarrow>
                        (case find (is_element ''table'') (ancestors obf_class_marker_td) of
                           None \<Rightarrow> (self, Some DefinitionTableNotFound)
                         | Some class_name_definition_table \<Rightarrow>
                             (case name_cells_after (td_class_is obf_marker) class_name_definition_table of
                                [] \<Rightarrow> (self, Some (ObfuscatedNameNotFound obf_marker))
                              | obfuscated_class_element # _ \<Rightarrow>
                                  (let self1 = self\<lparr>obfuscated_class_name :=
                                                      Some (py_strip (text_content obfuscated_class_element))\<rparr>
                                   in case name_cells_after (td_class_is requested_marker)
                                             class_name_definition_table of
                                        [] \<Rightarrow> (self1, Some (MappingNameNotFound
                                                              (name_of (mapping_type_requested self))
                                                              requested_marker))
                                      | mapping_class_element # _ \<Rightarrow>
                                          (self1\<lparr>mapping_class_name :=
                                                   Some (py_strip (text_content mapping_class_element))\<rparr>,
                                           None)))))))"

text \<open>\<^verbatim>\<open>if '(' in name: name = name.split('(')[0]\<close>\<close>

definition strip_paren :: "string \<Rightarrow> string" where
  "strip_paren name =
     (if CHR ''('' \<in> set name
      then (case py_split (CHR ''('') name of [] \<Rightarrow> name | x # _ \<Rightarrow> x)
      else name)"

text \<open>
  The loop over \<^verbatim>\<open>all_name_elements\<close> under the flat/dual scheme: the state is the pair
  of \<^verbatim>\<open>searge_name\<close> and \<^verbatim>\<open>obfuscated_name\<close>.
\<close>

definition classify_name :: "node \<Rightarrow> string option \<times> string option \<Rightarrow> string option \<times> string option" where
  "classify_name name_element st =
     (let name_text = strip_paren (py_strip (text_content name_element))
      in if re_match_searge_member name_text then (Some name_text, snd st)
         else if length name_text \<le> 4 \<and> re_match_obfuscated name_text then (fst st, Some name_text)
         else st)"

text \<open>
  The body of the loop over the rows of a member table, with the two markers that
  \<^verbatim>\<open>_process_member_table\<close> computes before the loop.
\<close>

definition process_member_row ::
  "MappingsType \<Rightarrow> string \<Rightarrow> string \<Rightarrow> node \<Rightarrow> (string \<rightharpoonup> string) \<Rightarrow> (string \<rightharpoonup> string)" where
  "process_member_row requested obf_member_marker requested_type_member_marker row mapping_dict =
     (let cells = xpath_child ''td'' row
      in if length cells < 2 then mapping_dict
         else
           (let name_container_td = cells ! 1
            in if requested = SEARGE then
                 (let all_name_elements = name_cells_after td_with_class name_container_td;
                      names = fold classify_name all_name_elements (None, None)
                  in case names of
                       (Some searge_name, Some obfuscated_name) \<Rightarrow>
                         if searge_name \<noteq> [] \<and> obfuscated_name \<noteq> []
                         then mapping_dict(searge_name \<mapsto> obfuscated_name)
                         else mapping_dict
                     | _ \<Rightarrow> mapping_dict)
               else
                 (let mapped_name_elements =
                        name_cells_after (td_class_is requested_type_member_marker) name_container_td;
                      obfuscated_name_elements =
                        name_cells_after (td_class_is obf_member_marker) name_container_td
                  in case (mapped_name_elements, obfuscated_name_elements) of
                       (m # _, ob # _) \<Rightarrow>
                         mapping_dict(strip_paren (py_strip (text_content m)) \<mapsto>
                                      strip_paren (py_strip (text_content ob)))
                     | _ \<Rightarrow> mapping_dict)))"

text \<open>\<^verbatim>\<open>Mappings._process_member_table\<close>, returning the updated dictionary.\<close>

definition process_member_table :: "Mappings \<Rightarrow> node \<Rightarrow> (string \<rightharpoonup> string) \<Rightarrow> (string \<rightharpoonup> string)" where
  "process_member_table self table_element mapping_dict =
     (let obf_member_marker = obfuscated_class_marker (detected_selectors self);
          requested_type_member_marker =
            (if mapping_type_requested self = SEARGE
             then (if truthy (searge_class_marker (detected_selectors self))
                   then searge_class_marker (detected_selectors self)
                   else obf_member_marker)
             else class_name_markers (detected_selectors self) (mapping_type_requested self))
      in case (obf_member_marker, requested_type_member_marker) of
           (Some obf, Some req) \<Rightarrow>
             if obf = [] \<or> req = [] then mapping_dict
             else
               (let rows = concat (map (xpath_child ''tr'') (xpath_child ''tbody'' table_element))
                in fold (process_member_row (mapping_type_requested self) obf req) rows mapping_dict)
         | _ \<Rightarrow> mapping_dict)"

text \<open>
  \<^verbatim>\<open>normalize-space\<close> of XPath (its whitespace is space, tab, line feed and carriage
  return) and one condition
  \<^verbatim>\<open>contains(concat(' ', normalize-space(@class), ' '), ' cls ')\<close>.
\<close>

definition xml_space :: "char \<Rightarrow> bool" where
  "xml_space c = (c = CHR 0x20 \<or> c = CHR 0x09 \<or> c = CHR 0x0A \<or> c = CHR 0x0D)"

fun join_spaces :: "string list \<Rightarrow> string" where
  "join_spaces [] = []"
| "join_spaces [w] = w"
| "join_spaces (w # ws) = w @ '' '' @ join_spaces ws"

definition normalize_space :: "string \<Rightarrow> string" where
  "normalize_space s = join_spaces (filter (\<lambda>w. w \<noteq> []) (split_where xml_space s))"

definition class_condition :: "string \<Rightarrow> node \<Rightarrow> bool" where
  "class_condition cls n =
     contains ('' '' @ cls @ '' '')
       ('' '' @ normalize_space (case get_attr n ''class'' of None \<Rightarrow> [] | Some c \<Rightarrow> c) @ '' '')"

text \<open>The list \<^verbatim>\<open>class_conditions\<close>, as the class tokens the conditions test.\<close>

definition class_conditions :: "string \<Rightarrow> string list" where
  "class_conditions fm_table_classes_str =
     map py_strip (filter (\<lambda>cls. py_strip cls \<noteq> []) (py_split_ws fm_table_classes_str))"

text \<open>
  \<^verbatim>\<open>h4[0].xpath(f"./following-sibling::{xpath_fm_table_selector}[1]")\<close> for the first
  heading with the given text, when there is one: without any condition the
  expression is \<^verbatim>\<open>table[]\<close>, which lxml refuses.
\<close>

definition member_table_candidates :: "string list \<Rightarrow> string \<Rightarrow> node \<Rightarrow> fetch_error + node option" where
  "member_table_candidates conds heading tree =
     (case summary_h4 heading tree of
        [] \<Rightarrow> Inr None
      | h # _ \<Rightarrow>
          if conds = [] then Inl XPathEvalError
          else Inr (find (\<lambda>n. is_element ''table'' n \<and> list_all (\<lambda>cls. class_condition cls n) conds)
                      (following_siblings h)))"

text \<open>The part of \<^verbatim>\<open>fetch\<close> that processes the field and method tables.\<close>

definition process_members :: "Mappings \<Rightarrow> node \<Rightarrow> fetch_error + Mappings" where
  "process_members self tree =
     (if \<not> truthy (field_method_table_class (detected_selectors self)) then Inr self
      else
        (let conds = class_conditions
                       (case field_method_table_class (detected_selectors self) of
                          None \<Rightarrow> [] | Some c \<Rightarrow> c)
         in case member_table_candidates conds ''Field summary'' tree of
              Inl e \<Rightarrow> Inl e
            | Inr fields_table \<Rightarrow>
                (let self1 = (case fields_table of
                                None \<Rightarrow> self
                              | Some t \<Rightarrow> self\<lparr>field_mappings :=
                                                 process_member_table self t (field_mappings self)\<rparr>)
                 in case member_table_candidates conds ''Method summary'' tree of
                      Inl e \<Rightarrow> Inl e
                    | Inr methods_table \<Rightarrow>
                        Inr (case methods_table of
                               None \<Rightarrow> self1
                             | Some t \<Rightarrow> self1\<lparr>method_mappings :=
                                                 process_member_table self1 t (method_mappings self1)\<rparr>))))"

text \<open>
  \<^verbatim>\<open>Mappings.fetch\<close>: the engine after the call, and the exception raised or the
  dictionary returned.
\<close>

definition fetch :: "Mappings \<Rightarrow> web \<Rightarrow> string \<Rightarrow> Mappings \<times> (fetch_error + MappingResult)" where
  "fetch self site class_path =
     (case site (url_of self class_path) of
        Inl e \<Rightarrow> (self, Inl (RequestFailed e))
      | Inr tree \<Rightarrow>
          (case extract_class_names (detect_selectors self tree) tree of
             (self1, Some e) \<Rightarrow> (self1, Inl e)
           | (self1, None) \<Rightarrow>
               (case process_members self1 tree of
                  Inl e \<Rightarrow> (self1, Inl e)
                | Inr self2 \<Rightarrow> (self2, Inr (get self2)))))"

section \<open>Notions used in the statements\<close>

text \<open>
  What the loop of the detector reads off a row, in the order of its tests: the row is
  skipped (\<open>None\<close>) unless it has exactly two cells, a non-empty class on the first and
  the name-cell class on the second; its trimmed text is then an obfuscated name, a
  dotted name with a conventional substring, a dotted name with the placeholder infix,
  any other dotted name, or nothing the loop acts on.
\<close>

datatype kind = Obfuscated_name | Conventional_suffix | Numbered_placeholder | Plain_dotted

definition classify :: "string \<Rightarrow> kind option" where
  "classify t =
     (if t = [] then None
      else if length t \<le> 4 \<and> re_match_obfuscated t then Some Obfuscated_name
      else if startswith t ''net.minecraft.'' \<or> startswith t ''com.mojang.'' then
        (if contains ''Client'' t \<or> contains ''Impl'' t then Some Conventional_suffix
         else if contains ''class_'' t then Some Numbered_placeholder
         else Some Plain_dotted)
      else None)"

definition row_sample :: "node \<Rightarrow> (string \<times> kind) option" where
  "row_sample row =
     (case xpath_child ''td'' row of
        [marker_cell, name_cell] \<Rightarrow>
          (case get_attr marker_cell ''class'' of
             None \<Rightarrow> None
           | Some marker_class \<Rightarrow>
               if marker_class = [] \<or> get_attr name_cell ''class'' \<noteq> Some POTENTIAL_NAME_CELL_CLASS
               then None
               else map_option (Pair marker_class) (classify (py_strip (text_content name_cell))))
      | _ \<Rightarrow> None)"

text \<open>
  The markers, in row order, of the rows of one kind; the slot of the selector
  dictionary that a kind is recorded in, and the member of
  \<^verbatim>\<open>found_types_for_class_names\<close> that guards it.
\<close>

definition markers_of :: "kind \<Rightarrow> node list \<Rightarrow> string list" where
  "markers_of k rows =
     List.map_filter (\<lambda>r. case row_sample r of
                             None \<Rightarrow> None
                           | Some (m, k') \<Rightarrow> if k' = k then Some m else None) rows"

fun slot :: "kind \<Rightarrow> selectors \<Rightarrow> string option" where
  "slot Obfuscated_name sel = obfuscated_class_marker sel"
| "slot Conventional_suffix sel = class_name_markers sel YARN"
| "slot Numbered_placeholder sel = class_name_markers sel INTERMEDIARY"
| "slot Plain_dotted sel = class_name_markers sel MOJANG"

fun flag :: "kind \<Rightarrow> MappingsType" where
  "flag Obfuscated_name = SEARGE"
| "flag Conventional_suffix = YARN"
| "flag Numbered_placeholder = INTERMEDIARY"
| "flag Plain_dotted = MOJANG"

text \<open>What the loop does with a row of a given kind and marker.\<close>

fun record_kind :: "string \<Rightarrow> kind \<Rightarrow> selectors \<times> MappingsType set \<Rightarrow> selectors \<times> MappingsType set" where
  "record_kind m Obfuscated_name st =
     (if SEARGE \<notin> snd st
      then ((fst st)\<lparr>obfuscated_class_marker := Some m\<rparr>, insert SEARGE (snd st)) else st)"
| "record_kind m Conventional_suffix st =
     (if YARN \<notin> snd st
      then ((fst st)\<lparr>class_name_markers := (class_name_markers (fst st))(YARN \<mapsto> m)\<rparr>, insert YARN (snd st)) else st)"
| "record_kind m Numbered_placeholder st =
     (if INTERMEDIARY \<notin> snd st
      then ((fst st)\<lparr>class_name_markers := (class_name_markers (fst st))(INTERMEDIARY \<mapsto> m)\<rparr>, insert INTERMEDIARY (snd st)) else st)"
| "record_kind m Plain_dotted st =
     (if MOJANG \<notin> snd st
      then ((fst st)\<lparr>class_name_markers := (class_name_markers (fst st))(MOJANG \<mapsto> m)\<rparr>, insert MOJANG (snd st))
      else if searge_class_marker (fst st) = None
      then ((fst st)\<lparr>searge_class_marker := Some m,
                     class_name_markers := (class_name_markers (fst st))(SEARGE \<mapsto> m)\<rparr>, snd st)
      else st)"

text \<open>
  The marker that a pass writes into the secondary slot when the slot is unset: the
  first plain dotted row met after the canonical-dotted marker has been recorded.
\<close>

definition second_dotted :: "MappingsType set \<Rightarrow> node list \<Rightarrow> string option" where
  "second_dotted found rows =
     (if MOJANG \<in> found
      then (case markers_of Plain_dotted rows of [] \<Rightarrow> None | m # _ \<Rightarrow> Some m)
      else (case markers_of Plain_dotted rows of _ # m # _ \<Rightarrow> Some m | _ \<Rightarrow> None))"

text \<open>
  The name that the member walk reads from a name cell: the trimmed text of the cell
  up to its first parenthesis.
\<close>

definition member_name :: "node \<Rightarrow> string" where
  "member_name name_element = strip_paren (py_strip (text_content name_element))"

section \<open>Example documents\<close>

text \<open>
  Rows in the layout the extractor expects: a marker cell followed by a name cell, and
  member rows that nest a table of such rows in their second cell.
\<close>

definition marker_cell :: "string \<Rightarrow> node" where
  "marker_cell m = Element ''td'' [(''class'', m)] []"

definition name_cell :: "string \<Rightarrow> node" where
  "name_cell t = Element ''td'' [(''class'', ''F'')] [Text t]"

definition name_row :: "string \<Rightarrow> string \<Rightarrow> node" where
  "name_row m t = Element ''tr'' [] [marker_cell m, name_cell t]"

definition member_row :: "node list \<Rightarrow> node" where
  "member_row names =
     Element ''tr'' [] [Element ''td'' [] [Text ''int''],
                        Element ''td'' [] [Element ''table'' [] names]]"

definition example_rows :: "node list" where
  "example_rows =
     [name_row ''A'' ''net.minecraft.Foo'',
      name_row ''B'' ''aq'',
      name_row ''C'' ''net.minecraft.Foo'',
      name_row ''E'' ''zz'']"

definition example_table :: node where
  "example_table = Element ''table'' [] example_rows"

text \<open>A page with a class-definition table and no member summary.\<close>

definition example_bare_page :: node where
  "example_bare_page = Element ''div'' [] [example_table]"

definition example_field_row :: node where
  "example_field_row =
     member_row [name_row ''A'' ''player'', name_row ''B'' ''bd'', name_row ''C'' ''field_1234_a'']"

definition example_method_row :: node where
  "example_method_row =
     member_row [name_row ''A'' ''getBoundingBox(Lnet/minecraft/...)'', name_row ''B'' ''cw()'']"

definition example_inherited_row :: node where
  "example_inherited_row = member_row [name_row ''A'' ''inherited'']"

definition example_heading_row :: node where
  "example_heading_row = Element ''tr'' [] [Element ''td'' [] [Text ''Fields'']]"

text \<open>
  More pages: one whose only dotted row is a plain one, one whose only dotted row
  carries a conventional substring, one without any table and one with a field
  summary; and a site that serves the pages of version 1.20.1.
\<close>

definition example_single_table :: node where
  "example_single_table =
     Element ''table'' [] [name_row ''A'' ''net.minecraft.Bar'', name_row ''B'' ''b'']"

definition example_single_page :: node where
  "example_single_page = Element ''div'' [] [example_single_table]"

definition example_yarn_page :: node where
  "example_yarn_page =
     Element ''div'' []
       [Element ''table'' [] [name_row ''A'' ''net.minecraft.BazImpl'', name_row ''O'' ''c'']]"

definition example_empty_page :: node where
  "example_empty_page = Element ''div'' [] []"

text \<open>A page with a class-definition table and a field summary.\<close>

definition example_members :: node where
  "example_members =
     Element ''table'' [(''class'', ''x y'')]
       [Element ''tbody'' []
          [example_field_row, example_inherited_row]]"

definition example_full_page :: node where
  "example_full_page =
     Element ''div'' []
       [example_single_table, Element ''h4'' [] [Text ''Field summary''], example_members]"

definition example_site :: web where
  "example_site u =
     (if u = ''https://mappings.dev/1.20.1/Foo.html'' then Inr example_bare_page
      else if u = ''https://mappings.dev/1.20.1/Bar.html'' then Inr example_single_page
      else if u = ''https://mappings.dev/1.20.1/Baz.html'' then Inr example_yarn_page
      else if u = ''https://mappings.dev/1.20.1/Empty.html'' then Inr example_empty_page
      else if u = ''https://mappings.dev/1.20.1/Qux.html'' then Inr example_full_page
      else Inl ''404 Client Error'')"




definition example_mojang_engine :: Mappings where
  "example_mojang_engine = fst (fetch (new_engine ''1.20.1'' MOJANG) example_site ''Qux'')"


definition example_engine :: Mappings where
  "example_engine = fst (fetch (new_engine ''1.20.1'' YARN) example_site ''Baz'')"

section \<open>The version gate\<close>

text \<open>
  C1. The second component of the version, split at dots, decides the constructor.
  When it parses as an integer below 15 and the requested scheme is not \<open>SEARGE\<close>, the
  constructor raises \<open>InvalidMappingTypeError\<close>; when it parses and either the scheme
  is \<open>SEARGE\<close> or the integer is at least 15, the engine is constructed without a
  warning; when it does not parse, or there is no second component, the engine is
  constructed and a warning is printed (so for a component that \<^verbatim>\<open>int\<close> refuses, such
  as one that starts with a separator character). The constructor has no access to the
  site.
\<close>

theorem version_gate:
  "(py_split (CHR ''.'') v = major # minor_str # rest \<and> py_int minor_str = Some n
      \<and> n < 15 \<and> mapping_type \<noteq> SEARGE
      \<longrightarrow> Mappings_init v mapping_type = Inl (InvalidMappingTypeError v mapping_type))
   \<and> (py_split (CHR ''.'') v = major # minor_str # rest \<and> py_int minor_str = Some n
      \<and> (mapping_type = SEARGE \<or> 15 \<le> n)
      \<longrightarrow> Mappings_init v mapping_type = Inr ([], new_engine v mapping_type))
   \<and> (py_split (CHR ''.'') v = major # minor_str # rest \<and> py_int minor_str = None
      \<longrightarrow> Mappings_init v mapping_type =
            Inr ([CouldNotParseMinorVersion v ValueError], new_engine v mapping_type))
   \<and> (py_split (CHR ''.'') v = [major]
      \<longrightarrow> Mappings_init v mapping_type =
            Inr ([CouldNotParseMinorVersion v IndexError], new_engine v mapping_type))"
  by (auto simp add: Mappings_init_def minor_version_def)

theorem version_gate_witness:
  "Mappings_init ''1.14.4'' MOJANG = Inl (InvalidMappingTypeError ''1.14.4'' MOJANG)
   \<and> Mappings_init ''1.14.4'' SEARGE = Inr ([], new_engine ''1.14.4'' SEARGE)
   \<and> Mappings_init ''1.20.1'' SEARGE = Inr ([], new_engine ''1.20.1'' SEARGE)
   \<and> Mappings_init ''1.20.1'' YARN = Inr ([], new_engine ''1.20.1'' YARN)
   \<and> Mappings_init ''1.x'' YARN = Inr ([CouldNotParseMinorVersion ''1.x'' ValueError], new_engine ''1.x'' YARN)
   \<and> Mappings_init ''snapshot'' YARN =
       Inr ([CouldNotParseMinorVersion ''snapshot'' IndexError], new_engine ''snapshot'' YARN)
   \<and> Mappings_init [CHR ''1'', CHR ''.'', CHR 0x1C, CHR ''1'', CHR ''4''] MOJANG =
       Inr ([CouldNotParseMinorVersion [CHR ''1'', CHR ''.'', CHR 0x1C, CHR ''1'', CHR ''4''] ValueError],
            new_engine [CHR ''1'', CHR ''.'', CHR 0x1C, CHR ''1'', CHR ''4''] MOJANG)"
proof -
  have s5: "py_split (CHR ''.'') [CHR ''1'', CHR ''.'', CHR 0x1C, CHR ''1'', CHR ''4'']
      = ''1'' # [CHR 0x1C, CHR ''1'', CHR ''4''] # []" by code_simp
  have i5: "py_int [CHR 0x1C, CHR ''1'', CHR ''4''] = None" by code_simp
  have s1: "py_split (CHR ''.'') ''1.14.4'' = ''1'' # ''14'' # [''4'']" by code_simp
  have s2: "py_split (CHR ''.'') ''1.20.1'' = ''1'' # ''20'' # [''1'']" by code_simp
  have s3: "py_split (CHR ''.'') ''1.x'' = ''1'' # ''x'' # []" by code_simp
  have s4: "py_split (CHR ''.'') ''snapshot'' = [''snapshot'']" by code_simp
  have i1: "py_int ''14'' = Some 14" by code_simp
  have i2: "py_int ''20'' = Some 20" by code_simp
  have i3: "py_int ''x'' = None" by code_simp
  have "Mappings_init ''1.14.4'' MOJANG = Inl (InvalidMappingTypeError ''1.14.4'' MOJANG)"
    using version_gate [of "''1.14.4''" "''1''" "''14''" "[''4'']" 14 MOJANG] s1 i1 by simp
  moreover have "Mappings_init ''1.14.4'' SEARGE = Inr ([], new_engine ''1.14.4'' SEARGE)"
    using version_gate [of "''1.14.4''" "''1''" "''14''" "[''4'']" 14 SEARGE] s1 i1 by simp
  moreover have "Mappings_init ''1.20.1'' SEARGE = Inr ([], new_engine ''1.20.1'' SEARGE)"
    using version_gate [of "''1.20.1''" "''1''" "''20''" "[''1'']" 20 SEARGE] s2 i2 by simp
  moreover have "Mappings_init ''1.20.1'' YARN = Inr ([], new_engine ''1.20.1'' YARN)"
    using version_gate [of "''1.20.1''" "''1''" "''20''" "[''1'']" 20 YARN] s2 i2 by simp
  moreover have "Mappings_init ''1.x'' YARN =
      Inr ([CouldNotParseMinorVersion ''1.x'' ValueError], new_engine ''1.x'' YARN)"
    using version_gate [of "''1.x''" "''1''" "''x''" "[]" _ YARN] s3 i3 by simp
  moreover have "Mappings_init ''snapshot'' YARN =
      Inr ([CouldNotParseMinorVersion ''snapshot'' IndexError], new_engine ''snapshot'' YARN)"
    using version_gate [of "''snapshot''" "''snapshot''" _ _ _ YARN] s4 by simp
  moreover have "Mappings_init [CHR ''1'', CHR ''.'', CHR 0x1C, CHR ''1'', CHR ''4''] MOJANG =
       Inr ([CouldNotParseMinorVersion [CHR ''1'', CHR ''.'', CHR 0x1C, CHR ''1'', CHR ''4''] ValueError],
            new_engine [CHR ''1'', CHR ''.'', CHR 0x1C, CHR ''1'', CHR ''4''] MOJANG)"
    using version_gate [of "[CHR ''1'', CHR ''.'', CHR 0x1C, CHR ''1'', CHR ''4'']" "''1''"
        "[CHR 0x1C, CHR ''1'', CHR ''4'']" "[]" _ MOJANG] s5 i5 by simp
  ultimately show ?thesis by blast
qed


section \<open>One pass of the detector\<close>

lemma detect_row_cells:
  assumes "xpath_child ''td'' r = [a, b]" "get_attr a ''class'' = Some mc"
    "mc \<noteq> []" "get_attr b ''class'' = Some POTENTIAL_NAME_CELL_CLASS"
  shows "detect_row r st =
     (case classify (py_strip (text_content b)) of None \<Rightarrow> st | Some k \<Rightarrow> record_kind mc k st)"
  using assms unfolding detect_row_def classify_def Let_def
  by (cases st) simp

lemma detect_row_sample:
  "detect_row r st = (case row_sample r of None \<Rightarrow> st | Some (m, k) \<Rightarrow> record_kind m k st)"
proof (cases "xpath_child ''td'' r")
  case Nil
  then show ?thesis by (simp add: detect_row_def row_sample_def)
next
  case (Cons a as)
  note c1 = this
  show ?thesis
  proof (cases as)
    case Nil
    with c1 show ?thesis by (simp add: detect_row_def row_sample_def)
  next
    case (Cons b bs)
    note c2 = this
    show ?thesis
    proof (cases bs)
      case (Cons c cs)
      with c1 c2 show ?thesis by (simp add: detect_row_def row_sample_def)
    next
      case Nil
      with c1 c2 have cells: "xpath_child ''td'' r = [a, b]" by simp
      show ?thesis
      proof (cases "get_attr a ''class''")
        case None
        with cells show ?thesis by (simp add: detect_row_def row_sample_def)
      next
        case (Some mc)
        show ?thesis
        proof (cases "mc \<noteq> [] \<and> get_attr b ''class'' = Some POTENTIAL_NAME_CELL_CLASS")
          case False
          with cells Some show ?thesis by (auto simp add: detect_row_def row_sample_def)
        next
          case True
          then have "detect_row r st =
            (case classify (py_strip (text_content b)) of None \<Rightarrow> st | Some k \<Rightarrow> record_kind mc k st)"
            using detect_row_cells [OF cells Some] by simp
          moreover have "row_sample r = map_option (Pair mc) (classify (py_strip (text_content b)))"
            using cells Some True by (simp add: row_sample_def)
          ultimately show ?thesis by (simp split: option.splits)
        qed
      qed
    qed
  qed
qed

lemma markers_of_Nil [simp]: "markers_of k [] = []"
  by (simp add: markers_of_def map_filter_simps)

lemma markers_of_Cons:
  "markers_of k (r # rs) =
     (case row_sample r of
        None \<Rightarrow> markers_of k rs
      | Some (m, k') \<Rightarrow> if k' = k then m # markers_of k rs else markers_of k rs)"
  by (simp add: markers_of_def map_filter_simps split: option.splits)

lemma markers_of_append: "markers_of k (xs @ ys) = markers_of k xs @ markers_of k ys"
  by (simp add: markers_of_def map_filter_def)

lemma record_kind_slot:
  "slot k (fst (record_kind m k' st)) = (if k' = k \<and> flag k \<notin> snd st then Some m else slot k (fst st))"
  by (cases k; cases k'; simp)

lemma record_kind_flag:
  "(flag k \<in> snd (record_kind m k' st)) = (flag k \<in> snd st \<or> k' = k)"
  by (cases k; cases k'; simp)

lemma record_kind_searge:
  "searge_class_marker (fst (record_kind m k st)) =
     (if k = Plain_dotted \<and> MOJANG \<in> snd st \<and> searge_class_marker (fst st) = None
      then Some m else searge_class_marker (fst st))"
  by (cases k; simp)

lemma record_kind_searge_entry:
  "class_name_markers (fst (record_kind m k st)) SEARGE =
     (if k = Plain_dotted \<and> MOJANG \<in> snd st \<and> searge_class_marker (fst st) = None
      then Some m else class_name_markers (fst st) SEARGE)"
  by (cases k; simp)

lemma record_kind_rest:
  "field_method_table_class (fst (record_kind m k st)) = field_method_table_class (fst st)"
  "name_container_cell_class (fst (record_kind m k st)) = name_container_cell_class (fst st)"
  by (cases k; simp)+

lemma detect_rows_Nil: "detect_rows [] st = st"
  by (simp add: detect_rows_def)

lemma detect_rows_Cons: "detect_rows (r # rs) st = detect_rows rs (detect_row r st)"
  by (simp add: detect_rows_def)

lemma detect_rows_append: "detect_rows (xs @ ys) st = detect_rows ys (detect_rows xs st)"
  by (simp add: detect_rows_def)

lemma detect_rows_slot:
  "slot k (fst (detect_rows rows st)) =
     (if flag k \<in> snd st then slot k (fst st)
      else (case markers_of k rows of [] \<Rightarrow> slot k (fst st) | m # _ \<Rightarrow> Some m))
   \<and> (flag k \<in> snd (detect_rows rows st)) = (flag k \<in> snd st \<or> markers_of k rows \<noteq> [])"
proof (induction rows arbitrary: st)
  case Nil
  show ?case by (simp add: detect_rows_Nil)
next
  case (Cons r rs)
  show ?case
  proof (cases "row_sample r")
    case None
    then have step: "detect_row r st = st" by (simp add: detect_row_sample)
    show ?thesis using Cons [of st] None
      by (simp add: detect_rows_Cons step markers_of_Cons)
  next
    case (Some p)
    obtain m k' where p: "p = (m, k')" by (cases p)
    have step: "detect_row r st = record_kind m k' st"
      using Some p by (simp add: detect_row_sample)
    show ?thesis
      using Cons [of "record_kind m k' st"] Some p
      by (simp add: detect_rows_Cons step markers_of_Cons record_kind_slot record_kind_flag
               split: list.splits)
  qed
qed

lemma detect_rows_searge:
  "searge_class_marker (fst (detect_rows rows st)) =
     (case searge_class_marker (fst st) of
        Some x \<Rightarrow> Some x
      | None \<Rightarrow> second_dotted (snd st) rows)
  \<and> class_name_markers (fst (detect_rows rows st)) SEARGE =
     (case searge_class_marker (fst st) of
        Some x \<Rightarrow> class_name_markers (fst st) SEARGE
      | None \<Rightarrow> (case second_dotted (snd st) rows of
                   None \<Rightarrow> class_name_markers (fst st) SEARGE
                 | Some m \<Rightarrow> Some m))"
proof (induction rows arbitrary: st)
  case Nil
  show ?case by (simp add: detect_rows_Nil second_dotted_def split: option.splits)
next
  case (Cons r rs)
  show ?case
  proof (cases "row_sample r")
    case None
    then have step: "detect_row r st = st" by (simp add: detect_row_sample)
    have "second_dotted (snd st) (r # rs) = second_dotted (snd st) rs"
      using None by (simp add: second_dotted_def markers_of_Cons)
    then show ?thesis using Cons [of st]
      by (simp add: detect_rows_Cons step split: option.splits)
  next
    case (Some p)
    obtain m k' where p: "p = (m, k')" by (cases p)
    have step: "detect_row r st = record_kind m k' st"
      using Some p by (simp add: detect_row_sample)
    have fl: "(MOJANG \<in> snd (record_kind m k' st)) = (MOJANG \<in> snd st \<or> k' = Plain_dotted)"
      using record_kind_flag [of Plain_dotted m k' st] by simp
    have mk: "markers_of Plain_dotted (r # rs) =
       (if k' = Plain_dotted then m # markers_of Plain_dotted rs else markers_of Plain_dotted rs)"
      using Some p by (simp add: markers_of_Cons)
    show ?thesis
      using Cons [of "record_kind m k' st"]
      by (auto simp add: detect_rows_Cons step mk record_kind_searge
            record_kind_searge_entry fl second_dotted_def
               split: list.splits option.splits)
  qed
qed

lemma detect_rows_rest:
  "field_method_table_class (fst (detect_rows rows st)) = field_method_table_class (fst st)
   \<and> name_container_cell_class (fst (detect_rows rows st)) = name_container_cell_class (fst st)"
proof (induction rows arbitrary: st)
  case Nil
  show ?case by (simp add: detect_rows_Nil)
next
  case (Cons r rs)
  have "field_method_table_class (fst (detect_row r st)) = field_method_table_class (fst st)
    \<and> name_container_cell_class (fst (detect_row r st)) = name_container_cell_class (fst st)"
    by (cases "row_sample r") (auto simp add: detect_row_sample record_kind_rest)
  then show ?case using Cons [of "detect_row r st"]
    by (simp add: detect_rows_Cons)
qed


lemma detect_selectors_tables:
  assumes "definition_tables tree = class_def_table # others"
  shows "detected_selectors (detect_selectors self tree) =
     (case common_table_class tree of
        None \<Rightarrow> fst (detect_rows (xpath_descendant ''tr'' class_def_table) (detected_selectors self, {}))
      | Some c \<Rightarrow> (fst (detect_rows (xpath_descendant ''tr'' class_def_table) (detected_selectors self, {})))
                    \<lparr>field_method_table_class := Some c\<rparr>)"
  using assms by (simp add: detect_selectors_def Let_def)

lemma detect_selectors_no_tables:
  "definition_tables tree = [] \<Longrightarrow> detect_selectors self tree = self"
  by (simp add: detect_selectors_def)

lemma slot_table_class [simp]: "slot k (sel\<lparr>field_method_table_class := c\<rparr>) = slot k sel"
  by (cases k) simp_all

lemma detect_selectors_slot:
  assumes "definition_tables tree = class_def_table # others"
  shows "slot k (detected_selectors (detect_selectors self tree)) =
     (case markers_of k (xpath_descendant ''tr'' class_def_table) of
        [] \<Rightarrow> slot k (detected_selectors self)
      | m # _ \<Rightarrow> Some m)"
  using detect_rows_slot [of k "xpath_descendant ''tr'' class_def_table" "(detected_selectors self, {})"]
  by (simp add: detect_selectors_tables [OF assms] split: option.splits list.splits)

lemma detect_selectors_table_class:
  assumes "definition_tables tree = class_def_table # others"
  shows "field_method_table_class (detected_selectors (detect_selectors self tree)) =
     (case common_table_class tree of
        None \<Rightarrow> field_method_table_class (detected_selectors self)
      | Some c \<Rightarrow> Some c)"
  using detect_rows_rest [of "xpath_descendant ''tr'' class_def_table" "(detected_selectors self, {})"]
  by (simp add: detect_selectors_tables [OF assms] split: option.splits)







text \<open>
  C3. Within one pass every slot takes the first match: when a row of some kind occurs
  among the rows \<open>pre\<close>, the slot of that kind holds the marker of the first such row
  after \<open>pre\<close> and still holds it after any further rows \<open>post\<close>; and once the
  secondary slot is set, further rows change neither it nor the \<open>SEARGE\<close> entry of the
  per-scheme map that is written together with it.
\<close>

theorem first_match_wins:
  "(markers_of k pre = m # ms
      \<longrightarrow> slot k (fst (detect_rows pre (sel, {}))) = Some m
        \<and> slot k (fst (detect_rows (pre @ post) (sel, {}))) = Some m)
   \<and> (searge_class_marker (fst (detect_rows pre (sel, {}))) = Some m'
      \<longrightarrow> searge_class_marker (fst (detect_rows (pre @ post) (sel, {}))) = Some m'
        \<and> class_name_markers (fst (detect_rows (pre @ post) (sel, {}))) SEARGE
            = class_name_markers (fst (detect_rows pre (sel, {}))) SEARGE)"
proof -
  let ?st = "(sel, {} :: MappingsType set)"
  have a: "slot k (fst (detect_rows pre ?st)) = Some m
        \<and> slot k (fst (detect_rows (pre @ post) ?st)) = Some m"
    if "markers_of k pre = m # ms"
    using detect_rows_slot [of k pre ?st] detect_rows_slot [of k "pre @ post" ?st] that
    by (simp add: markers_of_append)
  have b: "searge_class_marker (fst (detect_rows (pre @ post) ?st)) = Some m'
        \<and> class_name_markers (fst (detect_rows (pre @ post) ?st)) SEARGE
            = class_name_markers (fst (detect_rows pre ?st)) SEARGE"
    if "searge_class_marker (fst (detect_rows pre ?st)) = Some m'"
    using detect_rows_searge [of post "detect_rows pre ?st"] that
    by (simp add: detect_rows_append)
  from a b show ?thesis by blast
qed

theorem first_match_wins_witness:
  "slot Obfuscated_name (fst (detect_rows example_rows (detected_selectors (new_engine ''1.20.1'' SEARGE), {}))) = Some ''B''
   \<and> searge_class_marker (fst (detect_rows example_rows (detected_selectors (new_engine ''1.20.1'' SEARGE), {}))) = Some ''C''"
proof -
  let ?sel = "detected_selectors (new_engine ''1.20.1'' SEARGE)"
  have split: "example_rows = take 3 example_rows @ drop 3 example_rows" by simp
  have obf: "markers_of Obfuscated_name (take 3 example_rows) = ''B'' # []" by code_simp
  have sg: "searge_class_marker (fst (detect_rows (take 3 example_rows) (?sel, {}))) = Some ''C''"
    by code_simp
  have "slot Obfuscated_name (fst (detect_rows (take 3 example_rows @ drop 3 example_rows) (?sel, {}))) = Some ''B''
    \<and> searge_class_marker (fst (detect_rows (take 3 example_rows @ drop 3 example_rows) (?sel, {}))) = Some ''C''"
    using first_match_wins [of Obfuscated_name "take 3 example_rows" "''B''" "[]" ?sel
        "drop 3 example_rows" "''C''"] obf sg
    by blast
  then show ?thesis by simp
qed

section \<open>Member rows\<close>

lemma split_where_not_Nil: "split_where p s \<noteq> []"
  by (induction s) (auto split: list.splits)

lemma split_where_hd: "split_where p s = x # xs \<Longrightarrow> x = takeWhile (\<lambda>c. \<not> p c) s"
proof (induction s arbitrary: x xs)
  case Nil
  then show ?case by simp
next
  case (Cons c cs)
  show ?case
  proof (cases "p c")
    case True
    with Cons.prems show ?thesis by simp
  next
    case False
    obtain y ys where y: "split_where p cs = y # ys"
      using split_where_not_Nil [of p cs] by (cases "split_where p cs") auto
    with Cons.IH have "y = takeWhile (\<lambda>c. \<not> p c) cs" by simp
    with Cons.prems False y show ?thesis by simp
  qed
qed

lemma strip_paren_takeWhile: "strip_paren name = takeWhile (\<lambda>c. c \<noteq> CHR ''('') name"
proof (cases "CHR ''('' \<in> set name")
  case True
  obtain x xs where x: "split_where (\<lambda>c. c = CHR ''('') name = x # xs"
    using split_where_not_Nil [of "\<lambda>c. c = CHR ''(''" name]
    by (cases "split_where (\<lambda>c. c = CHR ''('') name") auto
  from split_where_hd [OF x] x True show ?thesis
    by (simp add: strip_paren_def py_split_def)
next
  case False
  have "strip_paren name = name" using False by (simp add: strip_paren_def)
  also have "name = takeWhile (\<lambda>c. c \<noteq> CHR ''('') name"
    using False by (induction name) auto
  finally show ?thesis .
qed

lemma startswith_length: "startswith s p \<Longrightarrow> length p \<le> length s"
  unfolding startswith_def by (metis length_take min.cobounded1)

lemma flat_token_long: "flat_token b \<Longrightarrow> 5 \<le> length b"
  unfolding flat_token_def by (auto dest: startswith_length)

lemma searge_member_long: "re_match_searge_member n \<Longrightarrow> 5 \<le> length n"
  unfolding re_match_searge_member_def dollar_def
  by (auto dest!: flat_token_long)

lemma obfuscated_not_empty: "re_match_obfuscated n \<Longrightarrow> n \<noteq> []"
  unfolding re_match_obfuscated_def dollar_def by auto

lemma classify_name_eq:
  "classify_name e st =
     (if re_match_searge_member (member_name e) then (Some (member_name e), snd st)
      else if length (member_name e) \<le> 4 \<and> re_match_obfuscated (member_name e)
      then (fst st, Some (member_name e))
      else st)"
  by (simp add: classify_name_def member_name_def Let_def)

lemma fold_classify_name:
  "fold classify_name es st =
     (if filter re_match_searge_member (map member_name es) = [] then fst st
      else Some (last (filter re_match_searge_member (map member_name es))),
      if filter (\<lambda>n. length n \<le> 4 \<and> re_match_obfuscated n) (map member_name es) = [] then snd st
      else Some (last (filter (\<lambda>n. length n \<le> 4 \<and> re_match_obfuscated n) (map member_name es))))"
proof (induction es rule: rev_induct)
  case Nil
  show ?case by simp
next
  case (snoc e es)
  have long: "re_match_searge_member (member_name e) \<Longrightarrow> \<not> length (member_name e) \<le> 4"
    using searge_member_long [of "member_name e"] by simp
  have step: "fold classify_name (es @ [e]) st = classify_name e (fold classify_name es st)"
    by simp
  show ?case
    unfolding step snoc classify_name_eq [of e]
    using long by auto
qed

lemma process_member_row_searge:
  "process_member_row SEARGE obf_member_marker requested_type_member_marker row mapping_dict =
     (let cells = xpath_child ''td'' row;
          names = map member_name (name_cells_after td_with_class (cells ! 1));
          flat = filter re_match_searge_member names;
          obfuscated = filter (\<lambda>n. length n \<le> 4 \<and> re_match_obfuscated n) names
      in if 2 \<le> length cells \<and> flat \<noteq> [] \<and> obfuscated \<noteq> []
         then mapping_dict(last flat \<mapsto> last obfuscated)
         else mapping_dict)"
proof (cases "length (xpath_child ''td'' row) < 2")
  case True
  then show ?thesis by (simp add: process_member_row_def Let_def)
next
  case False
  let ?names = "map member_name (name_cells_after td_with_class (xpath_child ''td'' row ! 1))"
  let ?flat = "filter re_match_searge_member ?names"
  let ?obf = "filter (\<lambda>n. length n \<le> 4 \<and> re_match_obfuscated n) ?names"
  have f: "last ?flat \<noteq> []" if "?flat \<noteq> []"
  proof -
    from that have "last ?flat \<in> set ?flat" by (rule last_in_set)
    then have "re_match_searge_member (last ?flat)" by simp
    then show ?thesis using searge_member_long [of "last ?flat"] by auto
  qed
  have ob: "last ?obf \<noteq> []" if "?obf \<noteq> []"
  proof -
    from that have "last ?obf \<in> set ?obf" by (rule last_in_set)
    then have "re_match_obfuscated (last ?obf)" by simp
    then show ?thesis by (rule obfuscated_not_empty)
  qed
  show ?thesis
    using False f ob
    by (simp add: process_member_row_def Let_def fold_classify_name)
qed


lemma name_cells_after_class:
  "set (name_cells_after (td_class_is x) ctx) \<subseteq> set (name_cells_after td_with_class ctx)"
  unfolding name_cells_after_def
  by (auto simp add: list_ex_iff td_class_is_def td_with_class_def)

lemma process_member_row_other:
  assumes "requested \<noteq> SEARGE" "2 \<le> length (xpath_child ''td'' row)"
    "name_cells_after (td_class_is req) (xpath_child ''td'' row ! 1) = k # ks"
    "name_cells_after (td_class_is obf) (xpath_child ''td'' row ! 1) = v # vs"
  shows "process_member_row requested obf req row m = m(member_name k \<mapsto> member_name v)"
  using assms by (simp add: process_member_row_def Let_def member_name_def)

lemma process_member_row_skip:
  assumes "length (xpath_child ''td'' row) < 2
     \<or> (requested \<noteq> SEARGE
        \<and> (name_cells_after (td_class_is req) (xpath_child ''td'' row ! 1) = []
           \<or> name_cells_after (td_class_is obf) (xpath_child ''td'' row ! 1) = []))"
  shows "process_member_row requested obf req row m = m"
  using assms by (auto simp add: process_member_row_def Let_def split: list.splits)

lemma process_member_row_entry:
  "process_member_row requested obf req row m = m
   \<or> (\<exists>k \<in> set (name_cells_after td_with_class (xpath_child ''td'' row ! 1)).
       \<exists>v \<in> set (name_cells_after td_with_class (xpath_child ''td'' row ! 1)).
         process_member_row requested obf req row m = m(member_name k \<mapsto> member_name v))"
proof (cases "requested = SEARGE")
  case True
  let ?cells = "name_cells_after td_with_class (xpath_child ''td'' row ! 1)"
  let ?flat = "filter re_match_searge_member (map member_name ?cells)"
  let ?obf = "filter (\<lambda>n. length n \<le> 4 \<and> re_match_obfuscated n) (map member_name ?cells)"
  show ?thesis
  proof (cases "2 \<le> length (xpath_child ''td'' row) \<and> ?flat \<noteq> [] \<and> ?obf \<noteq> []")
    case False
    then show ?thesis using True by (auto simp add: process_member_row_searge Let_def)
  next
    case c: True
    from c have "last ?flat \<in> set ?flat" by (intro last_in_set) simp
    moreover have "set ?flat \<subseteq> member_name ` set ?cells"
      using filter_is_subset [of re_match_searge_member "map member_name ?cells"] by simp
    ultimately obtain k where k: "k \<in> set ?cells" "last ?flat = member_name k" by blast
    from c have "last ?obf \<in> set ?obf" by (intro last_in_set) simp
    moreover have "set ?obf \<subseteq> member_name ` set ?cells"
      using filter_is_subset [of "\<lambda>n. length n \<le> 4 \<and> re_match_obfuscated n" "map member_name ?cells"]
      by simp
    ultimately obtain v where v: "v \<in> set ?cells" "last ?obf = member_name v" by blast
    note k v
    moreover have "process_member_row requested obf req row m = m(last ?flat \<mapsto> last ?obf)"
      using True c by (simp add: process_member_row_searge Let_def)
    ultimately show ?thesis by auto
  qed
next
  case False
  let ?cell = "xpath_child ''td'' row ! 1"
  show ?thesis
  proof (cases "2 \<le> length (xpath_child ''td'' row)
      \<and> name_cells_after (td_class_is req) ?cell \<noteq> [] \<and> name_cells_after (td_class_is obf) ?cell \<noteq> []")
    case c: False
    have "process_member_row requested obf req row m = m"
      by (rule process_member_row_skip) (use False c in auto)
    then show ?thesis by simp
  next
    case True
    then obtain k ks v vs where kv: "name_cells_after (td_class_is req) ?cell = k # ks"
      "name_cells_after (td_class_is obf) ?cell = v # vs"
      by (cases "name_cells_after (td_class_is req) ?cell";
          cases "name_cells_after (td_class_is obf) ?cell") auto
    then have "k \<in> set (name_cells_after td_with_class ?cell)"
      "v \<in> set (name_cells_after td_with_class ?cell)"
      using name_cells_after_class [of req ?cell] name_cells_after_class [of obf ?cell] by auto
    moreover have "process_member_row requested obf req row m = m(member_name k \<mapsto> member_name v)"
      using process_member_row_other [OF False _ kv] True by simp
    ultimately show ?thesis by auto
  qed
qed

text \<open>
  C6. Under \<open>SEARGE\<close> a member row is read through every name cell that follows a
  cell with a class attribute inside the row's second cell, whatever that class is:
  the outcome is the same for any two markers passed in. Each name is classified by
  the two regular expressions of the source, the flat token
  \<^verbatim>\<open>^(field_|method_|func_)[0-9]+_[a-zA-Z]$\<close> and, for names of at most four
  characters, \<^verbatim>\<open>^[a-zA-Z]{1,4}$\<close> (with Python's \<^verbatim>\<open>$\<close>); an entry is recorded
  exactly when the row has at least two cells and both a flat name and an obfuscated
  name were found, and it maps the last flat name to the last obfuscated name.
\<close>

theorem flat_dual_row:
  "process_member_row SEARGE obf_member_marker requested_type_member_marker row mapping_dict =
     (let cells = xpath_child ''td'' row;
          names = map member_name (name_cells_after td_with_class (cells ! 1));
          flat = filter re_match_searge_member names;
          obfuscated = filter (\<lambda>n. length n \<le> 4 \<and> re_match_obfuscated n) names
      in if 2 \<le> length cells \<and> flat \<noteq> [] \<and> obfuscated \<noteq> []
         then mapping_dict(last flat \<mapsto> last obfuscated)
         else mapping_dict)
   \<and> process_member_row SEARGE other_obf_marker other_requested_marker row mapping_dict
       = process_member_row SEARGE obf_member_marker requested_type_member_marker row mapping_dict"
proof -
  have "process_member_row SEARGE other_obf_marker other_requested_marker row mapping_dict
       = process_member_row SEARGE obf_member_marker requested_type_member_marker row mapping_dict"
    by (simp only: process_member_row_searge)
  then show ?thesis
    using process_member_row_searge [of obf_member_marker requested_type_member_marker row mapping_dict]
    by simp
qed

theorem flat_dual_row_witness:
  "process_member_row SEARGE ''B'' ''C'' example_field_row Map.empty ''field_1234_a'' = Some ''bd''"
  by (subst flat_dual_row [THEN conjunct1]) code_simp

text \<open>
  C7. The name taken from a name cell is its trimmed text up to the first opening
  parenthesis, and the whole trimmed text when there is none. Under every scheme other
  than \<open>SEARGE\<close> the entry of a row maps the name of the first cell after the requested
  marker to the name of the first cell after the obfuscated marker; under every scheme
  a row leaves the dictionary as it is or adds one entry whose key and value are
  both such names of name cells of the row.
\<close>

theorem parenthesis_stripping:
  "strip_paren name = takeWhile (\<lambda>c. c \<noteq> CHR ''('') name
   \<and> member_name cell = takeWhile (\<lambda>c. c \<noteq> CHR ''('') (py_strip (text_content cell))
   \<and> (requested \<noteq> SEARGE \<and> 2 \<le> length (xpath_child ''td'' row)
        \<and> name_cells_after (td_class_is req) (xpath_child ''td'' row ! 1) = k # ks
        \<and> name_cells_after (td_class_is obf) (xpath_child ''td'' row ! 1) = v # vs
      \<longrightarrow> process_member_row requested obf req row m = m(member_name k \<mapsto> member_name v))
   \<and> (process_member_row requested obf req row m = m
      \<or> (\<exists>k \<in> set (name_cells_after td_with_class (xpath_child ''td'' row ! 1)).
          \<exists>v \<in> set (name_cells_after td_with_class (xpath_child ''td'' row ! 1)).
            process_member_row requested obf req row m = m(member_name k \<mapsto> member_name v)))"
  using process_member_row_other [of requested row req k ks obf v vs m]
    process_member_row_entry [of requested obf req row m]
  by (simp add: strip_paren_takeWhile member_name_def)

theorem parenthesis_stripping_witness:
  "strip_paren ''getBoundingBox(Lnet/minecraft/...)'' = ''getBoundingBox''
   \<and> process_member_row MOJANG ''B'' ''A'' example_method_row Map.empty
       = [''getBoundingBox'' \<mapsto> ''cw'']"
proof -
  have len: "2 \<le> length (xpath_child ''td'' example_method_row)" by code_simp
  have k: "name_cells_after (td_class_is ''A'') (xpath_child ''td'' example_method_row ! 1)
      = name_cell ''getBoundingBox(Lnet/minecraft/...)'' # []" by code_simp
  have v: "name_cells_after (td_class_is ''B'') (xpath_child ''td'' example_method_row ! 1)
      = name_cell ''cw()'' # []" by code_simp
  have n1: "member_name (name_cell ''getBoundingBox(Lnet/minecraft/...)'') = ''getBoundingBox''"
    by code_simp
  have n2: "member_name (name_cell ''cw()'') = ''cw''" by code_simp
  have "strip_paren ''getBoundingBox(Lnet/minecraft/...)'' = ''getBoundingBox''"
    using parenthesis_stripping [of "''getBoundingBox(Lnet/minecraft/...)''"] by simp
  moreover have "process_member_row MOJANG ''B'' ''A'' example_method_row Map.empty
       = [''getBoundingBox'' \<mapsto> ''cw'']"
    using parenthesis_stripping [of _ _ MOJANG example_method_row "''A''" _ "[]" "''B''" _ "[]" Map.empty]
      len k v n1 n2 by simp
  ultimately show ?thesis by simp
qed

text \<open>
  C8. A member row with fewer than two cells, and under a scheme other than \<open>SEARGE\<close>
  a row whose second cell lacks the name cell after the requested marker or the name
  cell after the obfuscated marker, leaves the dictionary as it is; a table with such a
  row gives the same dictionary as the table without it. Processing a row has no
  failing branch: it returns a dictionary for every row.
\<close>

theorem incomplete_rows_skipped:
  "length (xpath_child ''td'' row) < 2
     \<or> (requested \<noteq> SEARGE
        \<and> (name_cells_after (td_class_is req) (xpath_child ''td'' row ! 1) = []
           \<or> name_cells_after (td_class_is obf) (xpath_child ''td'' row ! 1) = []))
   \<longrightarrow> process_member_row requested obf req row m = m
     \<and> fold (process_member_row requested obf req) (pre @ row # post) m
        = fold (process_member_row requested obf req) (pre @ post) m"
proof
  assume a: "length (xpath_child ''td'' row) < 2
     \<or> (requested \<noteq> SEARGE
        \<and> (name_cells_after (td_class_is req) (xpath_child ''td'' row ! 1) = []
           \<or> name_cells_after (td_class_is obf) (xpath_child ''td'' row ! 1) = []))"
  have "process_member_row requested obf req row m' = m'" for m'
    by (rule process_member_row_skip) (rule a)
  then show "process_member_row requested obf req row m = m
     \<and> fold (process_member_row requested obf req) (pre @ row # post) m
        = fold (process_member_row requested obf req) (pre @ post) m"
    by simp
qed

theorem incomplete_rows_skipped_witness:
  "process_member_row YARN ''B'' ''A'' example_heading_row [''x'' \<mapsto> ''y''] = [''x'' \<mapsto> ''y'']
   \<and> process_member_row MOJANG ''B'' ''A'' example_inherited_row [''x'' \<mapsto> ''y''] = [''x'' \<mapsto> ''y'']
   \<and> fold (process_member_row MOJANG ''B'' ''A'') ([example_method_row] @ example_inherited_row # []) Map.empty
      = fold (process_member_row MOJANG ''B'' ''A'') ([example_method_row] @ []) Map.empty"
proof -
  have h1: "length (xpath_child ''td'' example_heading_row) < 2" by code_simp
  have h2: "name_cells_after (td_class_is ''B'') (xpath_child ''td'' example_inherited_row ! 1) = []"
    by code_simp
  show ?thesis
    using incomplete_rows_skipped [of example_heading_row YARN "''A''" "''B''" "[''x'' \<mapsto> ''y'']"]
      incomplete_rows_skipped [of example_inherited_row MOJANG "''A''" "''B''" "[''x'' \<mapsto> ''y'']"]
      incomplete_rows_skipped [of example_inherited_row MOJANG "''A''" "''B''" Map.empty
         "[example_method_row]" "[]"]
      h1 h2
    by simp
qed


section \<open>Fetching\<close>

lemma fetch_tree:
  assumes "site (url_of self class_path) = Inr tree"
  shows "fetch self site class_path =
     (case extract_class_names (detect_selectors self tree) tree of
        (self1, Some e) \<Rightarrow> (self1, Inl e)
      | (self1, None) \<Rightarrow>
          (case process_members self1 tree of
             Inl e \<Rightarrow> (self1, Inl e)
           | Inr self2 \<Rightarrow> (self2, Inr (get self2))))"
  using assms by (simp add: fetch_def)

lemma detect_selectors_frame:
  "version (detect_selectors self tree) = version self"
  "mapping_type_requested (detect_selectors self tree) = mapping_type_requested self"
  "field_mappings (detect_selectors self tree) = field_mappings self"
  "method_mappings (detect_selectors self tree) = method_mappings self"
  "mapping_class_name (detect_selectors self tree) = mapping_class_name self"
  "obfuscated_class_name (detect_selectors self tree) = obfuscated_class_name self"
  by (simp_all add: detect_selectors_def Let_def split: list.splits)

lemma extract_class_names_unresolved:
  assumes "obfuscated_class_marker (detected_selectors self) = Some obf_marker" "obf_marker \<noteq> []"
    "\<not> truthy (requested_type_marker_class self)"
  shows "extract_class_names self tree = (self, Some (MarkerNotDetected (name_of (mapping_type_requested self))))"
  using assms by (simp add: extract_class_names_def truthy_def split: option.splits)

lemma extract_class_names_resolved:
  assumes "obfuscated_class_marker (detected_selectors self) = Some obf_marker" "obf_marker \<noteq> []"
    "requested_type_marker_class self = Some marker" "marker \<noteq> []"
  shows "extract_class_names self tree =
     (case find (\<lambda>l. td_class_is obf_marker (item l)) (all_elements tree) of
        None \<Rightarrow> (self, Some DefinitionTableNotFound)
      | Some obf_class_marker_td \<Rightarrow>
          (case find (is_element ''table'') (ancestors obf_class_marker_td) of
             None \<Rightarrow> (self, Some DefinitionTableNotFound)
           | Some class_name_definition_table \<Rightarrow>
               (case name_cells_after (td_class_is obf_marker) class_name_definition_table of
                  [] \<Rightarrow> (self, Some (ObfuscatedNameNotFound obf_marker))
                | obfuscated_class_element # _ \<Rightarrow>
                    (case name_cells_after (td_class_is marker) class_name_definition_table of
                       [] \<Rightarrow> (self\<lparr>obfuscated_class_name :=
                                     Some (py_strip (text_content obfuscated_class_element))\<rparr>,
                              Some (MappingNameNotFound (name_of (mapping_type_requested self)) marker))
                     | mapping_class_element # _ \<Rightarrow>
                         (self\<lparr>obfuscated_class_name :=
                                 Some (py_strip (text_content obfuscated_class_element)),
                               mapping_class_name :=
                                 Some (py_strip (text_content mapping_class_element))\<rparr>,
                          None)))))"
  using assms by (simp add: extract_class_names_def Let_def split: option.splits list.splits)

lemma process_members_names:
  assumes "process_members self tree = Inr self'"
  shows "mapping_class_name self' = mapping_class_name self
       \<and> obfuscated_class_name self' = obfuscated_class_name self
       \<and> detected_selectors self' = detected_selectors self
       \<and> mapping_type_requested self' = mapping_type_requested self
       \<and> version self' = version self"
  using assms
  by (auto simp add: process_members_def Let_def split: if_splits sum.splits option.splits)

lemma process_members_unset:
  "\<not> truthy (field_method_table_class (detected_selectors self)) \<Longrightarrow> process_members self tree = Inr self"
  by (simp add: process_members_def)

lemma example_site_Foo: "example_site (url_of (new_engine ''1.20.1'' mapping_type) ''Foo'') = Inr example_bare_page"
  by (simp add: example_site_def url_of_def new_engine_def)

lemma example_site_Bar: "example_site (url_of (new_engine ''1.20.1'' mapping_type) ''Bar'') = Inr example_single_page"
  by (simp add: example_site_def url_of_def new_engine_def)

text \<open>
  C4. Once detection has left an obfuscated marker, the class-name marker of the
  requested scheme is resolved as follows: for \<open>SEARGE\<close> it is the secondary slot when
  that is set, and the marker of \<open>MOJANG\<close> otherwise; for every other scheme it is
  the entry of the per-scheme map. When the resolved marker is unset, \<open>fetch\<close> raises
  the marker-not-detected error that names the requested scheme, and it raises that
  error in no other case; when \<open>fetch\<close> returns, the class name it returns is the
  trimmed text of the first name cell after the resolved marker in the
  class-definition table.
\<close>

theorem class_marker_resolution:
  assumes "site (url_of self class_path) = Inr tree"
    and "self1 = detect_selectors self tree"
    and "obfuscated_class_marker (detected_selectors self1) = Some obf_marker"
    and "obf_marker \<noteq> []"
  shows "(mapping_type_requested self = SEARGE \<and> truthy (searge_class_marker (detected_selectors self1))
           \<longrightarrow> requested_type_marker_class self1 = searge_class_marker (detected_selectors self1))
       \<and> (mapping_type_requested self = SEARGE \<and> \<not> truthy (searge_class_marker (detected_selectors self1))
           \<longrightarrow> requested_type_marker_class self1 = class_name_markers (detected_selectors self1) MOJANG)
       \<and> (mapping_type_requested self \<noteq> SEARGE
           \<longrightarrow> requested_type_marker_class self1
               = class_name_markers (detected_selectors self1) (mapping_type_requested self))
       \<and> (\<not> truthy (requested_type_marker_class self1)
           \<longrightarrow> snd (fetch self site class_path)
               = Inl (MarkerNotDetected (name_of (mapping_type_requested self))))
       \<and> (truthy (requested_type_marker_class self1)
           \<longrightarrow> snd (fetch self site class_path) \<noteq> Inl (MarkerNotDetected name))
       \<and> (requested_type_marker_class self1 = Some marker \<and> snd (fetch self site class_path) = Inr r
           \<longrightarrow> (\<exists>td table cell cells.
                  find (\<lambda>l. td_class_is obf_marker (item l)) (all_elements tree) = Some td
                  \<and> find (is_element ''table'') (ancestors td) = Some table
                  \<and> name_cells_after (td_class_is marker) table = cell # cells
                  \<and> res_class_name r = Some (py_strip (text_content cell))))"
proof -
  have mt: "mapping_type_requested self1 = mapping_type_requested self"
    using assms(2) by (simp add: detect_selectors_frame)
  have res: "(mapping_type_requested self = SEARGE \<and> truthy (searge_class_marker (detected_selectors self1))
           \<longrightarrow> requested_type_marker_class self1 = searge_class_marker (detected_selectors self1))
       \<and> (mapping_type_requested self = SEARGE \<and> \<not> truthy (searge_class_marker (detected_selectors self1))
           \<longrightarrow> requested_type_marker_class self1 = class_name_markers (detected_selectors self1) MOJANG)
       \<and> (mapping_type_requested self \<noteq> SEARGE
           \<longrightarrow> requested_type_marker_class self1
               = class_name_markers (detected_selectors self1) (mapping_type_requested self))"
    by (simp add: requested_type_marker_class_def py_or_def mt)
  have f: "fetch self site class_path =
     (case extract_class_names self1 tree of
        (self2, Some e) \<Rightarrow> (self2, Inl e)
      | (self2, None) \<Rightarrow>
          (case process_members self2 tree of
             Inl e \<Rightarrow> (self2, Inl e)
           | Inr self3 \<Rightarrow> (self3, Inr (get self3))))"
    using fetch_tree [where site = site and self = self and class_path = class_path, OF assms(1)]
      assms(2) by simp
  have unres: "snd (fetch self site class_path)
               = Inl (MarkerNotDetected (name_of (mapping_type_requested self)))"
    if "\<not> truthy (requested_type_marker_class self1)"
    using extract_class_names_unresolved [OF assms(3,4) that, of tree] f mt by simp
  have resolved: "snd (fetch self site class_path) \<noteq> Inl (MarkerNotDetected name)
      \<and> (snd (fetch self site class_path) = Inr r
           \<longrightarrow> (\<exists>td table cell cells.
                  find (\<lambda>l. td_class_is obf_marker (item l)) (all_elements tree) = Some td
                  \<and> find (is_element ''table'') (ancestors td) = Some table
                  \<and> name_cells_after (td_class_is marker) table = cell # cells
                  \<and> res_class_name r = Some (py_strip (text_content cell))))"
    if m: "requested_type_marker_class self1 = Some marker" "marker \<noteq> []" for marker
  proof -
    note e = extract_class_names_resolved [OF assms(3,4) m, of tree]
    have xp: "process_members s tree \<noteq> Inl (MarkerNotDetected name)" for s
      by (auto simp add: process_members_def member_table_candidates_def Let_def
            split: sum.splits list.splits if_splits option.splits)
    have a: "snd (fetch self site class_path) \<noteq> Inl (MarkerNotDetected name)"
      using xp unfolding f e by (auto split: option.splits list.splits sum.splits)
    have b: "\<exists>td table cell cells.
                  find (\<lambda>l. td_class_is obf_marker (item l)) (all_elements tree) = Some td
                  \<and> find (is_element ''table'') (ancestors td) = Some table
                  \<and> name_cells_after (td_class_is marker) table = cell # cells
                  \<and> res_class_name r = Some (py_strip (text_content cell))"
      if "snd (fetch self site class_path) = Inr r"
      using that unfolding f e
      by (auto simp add: get_def split: option.splits list.splits sum.splits
            dest!: process_members_names)
    from a b show ?thesis by blast
  qed
  have r1: "snd (fetch self site class_path) \<noteq> Inl (MarkerNotDetected name)"
    if "truthy (requested_type_marker_class self1)"
    using that resolved by (auto simp add: truthy_def split: option.splits)
  have r2: "\<exists>td table cell cells.
                  find (\<lambda>l. td_class_is obf_marker (item l)) (all_elements tree) = Some td
                  \<and> find (is_element ''table'') (ancestors td) = Some table
                  \<and> name_cells_after (td_class_is marker) table = cell # cells
                  \<and> res_class_name r = Some (py_strip (text_content cell))"
    if "requested_type_marker_class self1 = Some marker" "snd (fetch self site class_path) = Inr r"
  proof (cases "marker = []")
    case True
    then have "\<not> truthy (requested_type_marker_class self1)" using that by (simp add: truthy_def)
    from unres [OF this] that show ?thesis by simp
  next
    case False
    with resolved [OF that(1)] that(2) show ?thesis by blast
  qed
  from res unres r1 r2 show ?thesis by blast
qed


theorem class_marker_resolution_witness:
  "requested_type_marker_class (detect_selectors (new_engine ''1.20.1'' SEARGE) example_bare_page) = Some ''C''
   \<and> requested_type_marker_class (detect_selectors (new_engine ''1.20.1'' SEARGE) example_single_page) = Some ''A''
   \<and> requested_type_marker_class (detect_selectors (new_engine ''1.20.1'' YARN) example_bare_page) = None
   \<and> snd (fetch (new_engine ''1.20.1'' YARN) example_site ''Foo'') = Inl (MarkerNotDetected ''YARN'')
   \<and> snd (fetch (new_engine ''1.20.1'' SEARGE) example_site ''Foo'') \<noteq> Inl (MarkerNotDetected ''SEARGE'')
   \<and> (\<exists>td table cell cells.
         find (\<lambda>l. td_class_is ''B'' (item l)) (all_elements example_bare_page) = Some td
         \<and> find (is_element ''table'') (ancestors td) = Some table
         \<and> name_cells_after (td_class_is ''C'') table = cell # cells
         \<and> res_class_name (projr (snd (fetch (new_engine ''1.20.1'' SEARGE) example_site ''Foo'')))
             = Some (py_strip (text_content cell)))"
proof -
  let ?S = "new_engine ''1.20.1'' SEARGE"
  let ?Y = "new_engine ''1.20.1'' YARN"
  have mtS: "mapping_type_requested ?S = SEARGE" and mtY: "mapping_type_requested ?Y = YARN"
    by (simp_all add: new_engine_def)
  have obf1: "obfuscated_class_marker (detected_selectors (detect_selectors ?S example_bare_page)) = Some ''B''"
    by code_simp
  have obf2: "obfuscated_class_marker (detected_selectors (detect_selectors ?S example_single_page)) = Some ''B''"
    by code_simp
  have obf3: "obfuscated_class_marker (detected_selectors (detect_selectors ?Y example_bare_page)) = Some ''B''"
    by code_simp
  have sg1: "searge_class_marker (detected_selectors (detect_selectors ?S example_bare_page)) = Some ''C''"
    by code_simp
  have sg2: "searge_class_marker (detected_selectors (detect_selectors ?S example_single_page)) = None"
    by code_simp
  have mj2: "class_name_markers (detected_selectors (detect_selectors ?S example_single_page)) MOJANG = Some ''A''"
    by code_simp
  have ya3: "class_name_markers (detected_selectors (detect_selectors ?Y example_bare_page)) YARN = None"
    by code_simp
  have ok: "\<not> isl (snd (fetch ?S example_site ''Foo''))"
    by code_simp
  then have r: "snd (fetch ?S example_site ''Foo'') = Inr (projr (snd (fetch ?S example_site ''Foo'')))"
    by simp
  note t1 = class_marker_resolution [where site = example_site, OF example_site_Foo refl obf1,
      of "''SEARGE''" "''C''" "projr (snd (fetch ?S example_site ''Foo''))"]
  note t2 = class_marker_resolution [where site = example_site, OF example_site_Bar refl obf2]
  note t3 = class_marker_resolution [where site = example_site, OF example_site_Foo refl obf3]
  have c1: "requested_type_marker_class (detect_selectors ?S example_bare_page) = Some ''C''"
    using t1 mtS sg1 by (simp add: truthy_def)
  have c2: "requested_type_marker_class (detect_selectors ?S example_single_page) = Some ''A''"
    using t2 mtS sg2 mj2 by (simp add: truthy_def)
  have c3: "requested_type_marker_class (detect_selectors ?Y example_bare_page) = None"
    using t3 mtY ya3 by simp
  have c4: "snd (fetch ?Y example_site ''Foo'') = Inl (MarkerNotDetected ''YARN'')"
    using t3 mtY c3 by (simp add: truthy_def)
  have c5: "snd (fetch ?S example_site ''Foo'') \<noteq> Inl (MarkerNotDetected ''SEARGE'')"
    using t1 c1 by (simp add: truthy_def)
  have c6: "\<exists>td table cell cells.
         find (\<lambda>l. td_class_is ''B'' (item l)) (all_elements example_bare_page) = Some td
         \<and> find (is_element ''table'') (ancestors td) = Some table
         \<and> name_cells_after (td_class_is ''C'') table = cell # cells
         \<and> res_class_name (projr (snd (fetch ?S example_site ''Foo'')))
             = Some (py_strip (text_content cell))"
    using t1 c1 r by blast
  from c1 c2 c3 c4 c5 c6 show ?thesis by blast
qed

lemma fetch_degraded:
  assumes "site (url_of self class_path) = Inr tree"
    and "\<not> truthy (field_method_table_class (detected_selectors (detect_selectors self tree)))"
    and "extract_class_names (detect_selectors self tree) tree = (self1, None)"
  shows "fetch self site class_path = (self1, Inr (get self1))"
    and "field_mappings self1 = field_mappings self" and "method_mappings self1 = method_mappings self"
    and "mapping_class_name self1 \<noteq> None" and "obfuscated_class_name self1 \<noteq> None"
proof -
  have upd: "\<exists>a b. self1 = (detect_selectors self tree)\<lparr>obfuscated_class_name := Some a, mapping_class_name := Some b\<rparr>"
    using assms(3)
    by (auto simp add: extract_class_names_def Let_def split: option.splits list.splits if_splits)
  then have sel: "detected_selectors self1 = detected_selectors (detect_selectors self tree)"
    by auto
  show "fetch self site class_path = (self1, Inr (get self1))"
    using fetch_tree [where site = site and self = self and class_path = class_path, OF assms(1)]
      assms(2,3) sel
    by (simp add: process_members_unset)
  show "field_mappings self1 = field_mappings self" "method_mappings self1 = method_mappings self"
    using upd by (auto simp add: detect_selectors_frame)
  show "mapping_class_name self1 \<noteq> None" "obfuscated_class_name self1 \<noteq> None"
    using upd by auto
qed

lemma common_table_class_truthy: "common_table_class tree = Some c \<Longrightarrow> c \<noteq> []"
  by (auto simp add: common_table_class_def summary_table_class_def truthy_def
        split: option.splits list.splits if_splits)

lemma extract_class_names_found:
  "extract_class_names s tree = (s', None) \<Longrightarrow> obfuscated_class_marker (detected_selectors s) \<noteq> None"
  by (auto simp add: extract_class_names_def split: option.splits)

text \<open>
  C5, as the code has it. On an engine as the constructor leaves it, and for a document
  in which both class names are found, detection leaves the member-table marker unset
  exactly when the document has no field-summary or method-summary heading followed by
  a table with a class; \<open>fetch\<close> then skips the member tables and returns: the result
  holds the two class names, and its field and method dictionaries are empty.
\<close>

theorem degraded_success:
  assumes "self = new_engine v mapping_type"
    and "site (url_of self class_path) = Inr tree"
    and "extract_class_names (detect_selectors self tree) tree = (self1, None)"
  shows "((\<not> truthy (field_method_table_class (detected_selectors (detect_selectors self tree))))
            = (common_table_class tree = None))
       \<and> (\<not> truthy (field_method_table_class (detected_selectors (detect_selectors self tree)))
           \<longrightarrow> snd (fetch self site class_path) =
                 Inr \<lparr> res_class_name = mapping_class_name self1,
                       res_obfuscated_class_name = obfuscated_class_name self1,
                       res_fields = Map.empty, res_methods = Map.empty \<rparr>
               \<and> mapping_class_name self1 \<noteq> None \<and> obfuscated_class_name self1 \<noteq> None)"
proof -
  have fresh: "obfuscated_class_marker (detected_selectors self) = None"
    "field_method_table_class (detected_selectors self) = None"
    using assms(1) by (simp_all add: new_engine_def)
  have "obfuscated_class_marker (detected_selectors (detect_selectors self tree)) \<noteq> None"
    using assms(3) by (rule extract_class_names_found)
  then have "definition_tables tree \<noteq> []"
    using fresh(1) by (auto simp add: detect_selectors_no_tables)
  then obtain t ts where tables: "definition_tables tree = t # ts"
    by (cases "definition_tables tree") auto
  have eq: "(\<not> truthy (field_method_table_class (detected_selectors (detect_selectors self tree))))
            = (common_table_class tree = None)"
    using fresh(2) common_table_class_truthy [of tree]
    by (auto simp add: detect_selectors_table_class [OF tables] truthy_def split: option.splits)
  have "snd (fetch self site class_path) =
                 Inr \<lparr> res_class_name = mapping_class_name self1,
                       res_obfuscated_class_name = obfuscated_class_name self1,
                       res_fields = Map.empty, res_methods = Map.empty \<rparr>
               \<and> mapping_class_name self1 \<noteq> None \<and> obfuscated_class_name self1 \<noteq> None"
    if "\<not> truthy (field_method_table_class (detected_selectors (detect_selectors self tree)))"
    using fetch_degraded [where site = site, OF assms(2) that assms(3)] assms(1)
    by (simp add: get_def new_engine_def)
  with eq show ?thesis by blast
qed

theorem degraded_success_witness:
  "common_table_class example_bare_page = None
   \<and> snd (fetch (new_engine ''1.20.1'' MOJANG) example_site ''Foo'') =
     Inr \<lparr> res_class_name = Some ''net.minecraft.Foo'',
           res_obfuscated_class_name = Some ''aq'',
           res_fields = Map.empty, res_methods = Map.empty \<rparr>"
proof -
  let ?M = "new_engine ''1.20.1'' MOJANG"
  let ?x = "extract_class_names (detect_selectors ?M example_bare_page) example_bare_page"
  have unset: "\<not> truthy (field_method_table_class (detected_selectors (detect_selectors ?M example_bare_page)))"
    by code_simp
  have "snd ?x = None" by code_simp
  then have x: "?x = (fst ?x, None)" by (metis prod.collapse)
  have n1: "mapping_class_name (fst ?x) = Some ''net.minecraft.Foo''" by code_simp
  have n2: "obfuscated_class_name (fst ?x) = Some ''aq''" by code_simp
  show ?thesis
    using degraded_success [where site = example_site, OF refl example_site_Foo x] unset n1 n2
    by simp
qed

text \<open>
  C5 as the specification states it fails on an engine that has fetched before: the
  engine that fetched \<^verbatim>\<open>Qux\<close> keeps the table class and the field dictionary of
  that page, so on \<^verbatim>\<open>Foo\<close>, a page without any summary heading, the member-table
  marker is still set after detection and the fetch returns with the field of
  \<^verbatim>\<open>Qux\<close> in its field dictionary.
\<close>

theorem stale_fields_on_reused_engine:
  "common_table_class example_bare_page = None
   \<and> field_method_table_class (detected_selectors (detect_selectors example_mojang_engine example_bare_page))
       = Some ''x y''
   \<and> \<not> isl (snd (fetch example_mojang_engine example_site ''Foo''))
   \<and> res_class_name (projr (snd (fetch example_mojang_engine example_site ''Foo''))) = Some ''net.minecraft.Foo''
   \<and> res_fields (projr (snd (fetch example_mojang_engine example_site ''Foo''))) ''player'' = Some ''bd''"
proof -
  have "common_table_class example_bare_page = None" by code_simp
  moreover have "field_method_table_class (detected_selectors (detect_selectors example_mojang_engine example_bare_page))
       = Some ''x y''" by code_simp
  moreover have "\<not> isl (snd (fetch example_mojang_engine example_site ''Foo''))" by code_simp
  moreover have "res_class_name (projr (snd (fetch example_mojang_engine example_site ''Foo''))) = Some ''net.minecraft.Foo''"
    by code_simp
  moreover have "res_fields (projr (snd (fetch example_mojang_engine example_site ''Foo''))) ''player'' = Some ''bd''"
    by code_simp
  ultimately show ?thesis by blast
qed

section \<open>The selector state across fetches\<close>

lemma extract_class_names_selectors:
  "detected_selectors (fst (extract_class_names self tree)) = detected_selectors self"
  by (simp add: extract_class_names_def Let_def split: option.splits list.splits)

lemma fetch_selectors:
  assumes "site (url_of self class_path) = Inr tree"
  shows "detected_selectors (fst (fetch self site class_path)) = detected_selectors (detect_selectors self tree)"
proof -
  obtain s2 eo where x: "extract_class_names (detect_selectors self tree) tree = (s2, eo)"
    by (cases "extract_class_names (detect_selectors self tree) tree")
  have s2: "detected_selectors s2 = detected_selectors (detect_selectors self tree)"
    using extract_class_names_selectors [of "detect_selectors self tree" tree] x by simp
  show ?thesis
    using fetch_tree [where site = site and self = self and class_path = class_path, OF assms] x s2
    by (auto split: option.splits sum.splits dest: process_members_names)
qed

text \<open>
  C9, as the code has it. The selector state belongs to the engine instance: the
  constructor creates it and \<open>fetch\<close> never clears it. A fetch runs detection once
  and nothing after detection changes the selectors. On a document without a
  class-definition table detection changes nothing; otherwise the obfuscated marker
  and the markers of \<open>MOJANG\<close>, \<open>YARN\<close> and \<open>INTERMEDIARY\<close> become the marker of
  the first row of their kind in this document, and keep the value an earlier fetch
  recorded when this document has no such row; the member-table marker likewise
  becomes the class of this document's summary table and keeps its earlier value when
  there is none.
\<close>

theorem selectors_kept_across_fetches:
  assumes "site (url_of self class_path) = Inr tree"
  shows "detected_selectors (fst (fetch self site class_path))
           = detected_selectors (detect_selectors self tree)
       \<and> (definition_tables tree = []
           \<longrightarrow> detected_selectors (detect_selectors self tree) = detected_selectors self)
       \<and> (definition_tables tree = class_def_table # others
           \<longrightarrow> slot k (detected_selectors (detect_selectors self tree)) =
                 (case markers_of k (xpath_descendant ''tr'' class_def_table) of
                    [] \<Rightarrow> slot k (detected_selectors self)
                  | m # _ \<Rightarrow> Some m)
             \<and> field_method_table_class (detected_selectors (detect_selectors self tree)) =
                 (case common_table_class tree of
                    None \<Rightarrow> field_method_table_class (detected_selectors self)
                  | Some c \<Rightarrow> Some c))"
  using fetch_selectors [where site = site, OF assms]
    detect_selectors_slot [of tree class_def_table others k self]
    detect_selectors_table_class [of tree class_def_table others self]
  by (simp add: detect_selectors_no_tables)

theorem selectors_kept_across_fetches_witness:
  "slot Conventional_suffix (detected_selectors (fst (fetch example_engine example_site ''Bar''))) = Some ''A''
   \<and> slot Obfuscated_name (detected_selectors example_engine) = Some ''O''
   \<and> slot Obfuscated_name (detected_selectors (fst (fetch example_engine example_site ''Bar''))) = Some ''B''
   \<and> field_method_table_class (detected_selectors (fst (fetch example_engine example_site ''Bar''))) = None
   \<and> detected_selectors (fst (fetch example_engine example_site ''Empty'')) = detected_selectors example_engine"
proof -
  have bar: "example_site (url_of example_engine ''Bar'') = Inr example_single_page"
    by code_simp
  have empty: "example_site (url_of example_engine ''Empty'') = Inr example_empty_page"
    by code_simp
  have tables: "definition_tables example_single_page = example_single_table # []"
    by code_simp
  have none: "definition_tables example_empty_page = []"
    by code_simp
  have yarn: "markers_of Conventional_suffix (xpath_descendant ''tr'' example_single_table) = []"
    by code_simp
  have obf: "markers_of Obfuscated_name (xpath_descendant ''tr'' example_single_table) = [''B'']"
    by code_simp
  have old_yarn: "slot Conventional_suffix (detected_selectors example_engine) = Some ''A''"
    by code_simp
  have old_obf: "slot Obfuscated_name (detected_selectors example_engine) = Some ''O''"
    by code_simp
  have old_fm: "field_method_table_class (detected_selectors example_engine) = None"
    by code_simp
  have common: "common_table_class example_single_page = None"
    by code_simp
  note t1 = selectors_kept_across_fetches [where site = example_site, OF bar,
      of example_single_table "[]" Conventional_suffix]
  note t2 = selectors_kept_across_fetches [where site = example_site, OF bar,
      of example_single_table "[]" Obfuscated_name]
  note t3 = selectors_kept_across_fetches [where site = example_site, OF empty]
  have "slot Conventional_suffix (detected_selectors (fst (fetch example_engine example_site ''Bar''))) = Some ''A''"
    using t1 tables yarn old_yarn by simp
  moreover have "slot Obfuscated_name (detected_selectors (fst (fetch example_engine example_site ''Bar''))) = Some ''B''"
    using t2 tables obf by simp
  moreover have "field_method_table_class (detected_selectors (fst (fetch example_engine example_site ''Bar''))) = None"
    using t1 tables common old_fm by simp
  moreover have "detected_selectors (fst (fetch example_engine example_site ''Empty'')) = detected_selectors example_engine"
    using t3 none by simp
  ultimately show ?thesis using old_obf by blast
qed

text \<open>
  C9 as the specification states it fails: on a fresh engine the page
  \<^verbatim>\<open>Bar\<close> has no marker for \<open>YARN\<close> and the fetch raises; on the engine that
  fetched \<^verbatim>\<open>Baz\<close> before, the marker recorded there is used on \<^verbatim>\<open>Bar\<close>, and the
  fetch returns the name under another scheme's marker.
\<close>

theorem selector_state_not_per_fetch:
  "snd (fetch (new_engine ''1.20.1'' YARN) example_site ''Bar'') = Inl (MarkerNotDetected ''YARN'')
   \<and> class_name_markers (detected_selectors (fst (fetch (new_engine ''1.20.1'' YARN) example_site ''Bar''))) YARN = None
   \<and> class_name_markers (detected_selectors (fst (fetch example_engine example_site ''Bar''))) YARN = Some ''A''
   \<and> \<not> isl (snd (fetch example_engine example_site ''Bar''))
   \<and> res_class_name (projr (snd (fetch example_engine example_site ''Bar''))) = Some ''net.minecraft.Bar''"
proof -
  have "isl (snd (fetch (new_engine ''1.20.1'' YARN) example_site ''Bar''))"
    by code_simp
  moreover have "projl (snd (fetch (new_engine ''1.20.1'' YARN) example_site ''Bar'')) = MarkerNotDetected ''YARN''"
    by code_simp
  ultimately have "snd (fetch (new_engine ''1.20.1'' YARN) example_site ''Bar'') = Inl (MarkerNotDetected ''YARN'')"
    by (metis sum.collapse(1))
  moreover have "class_name_markers (detected_selectors (fst (fetch (new_engine ''1.20.1'' YARN) example_site ''Bar''))) YARN = None"
    by code_simp
  moreover have "class_name_markers (detected_selectors (fst (fetch example_engine example_site ''Bar''))) YARN = Some ''A''"
    by code_simp
  moreover have "\<not> isl (snd (fetch example_engine example_site ''Bar''))"
    by code_simp
  moreover have "res_class_name (projr (snd (fetch example_engine example_site ''Bar''))) = Some ''net.minecraft.Bar''"
    by code_simp
  ultimately show ?thesis by blast
qed


section \<open>Fetching twice\<close>

lemma process_member_row_add:
  "\<exists>e. \<forall>m. process_member_row requested obf req row m = m ++ e"
proof (cases "requested = SEARGE")
  case True
  show ?thesis
  proof (intro exI allI)
    fix m
    show "process_member_row requested obf req row m =
      m ++ process_member_row requested obf req row Map.empty"
      unfolding True process_member_row_searge [of obf req row m]
        process_member_row_searge [of obf req row Map.empty]
      by (simp add: Let_def)
  qed
next
  case False
  show ?thesis
  proof (intro exI allI)
    fix m
    show "process_member_row requested obf req row m =
      m ++ process_member_row requested obf req row Map.empty"
      using False
      by (simp add: process_member_row_def Let_def split: list.splits)
  qed
qed

lemma fold_add:
  assumes "\<And>r. \<exists>e. \<forall>m. P r m = m ++ e"
  shows "\<exists>E. \<forall>m. fold P rows m = m ++ E"
proof (induction rows)
  case Nil
  have "\<forall>m. fold P [] m = m ++ Map.empty" by simp
  then show ?case by blast
next
  case (Cons r rs)
  from assms [of r] obtain e where e: "\<forall>m. P r m = m ++ e" by blast
  from Cons obtain E where E: "\<forall>m. fold P rs m = m ++ E" by blast
  have "\<forall>m. fold P (r # rs) m = m ++ (e ++ E)" by (simp add: e E)
  then show ?case by blast
qed

lemma process_member_table_add:
  "\<exists>E. \<forall>s m. detected_selectors s = sel \<and> mapping_type_requested s = mt
       \<longrightarrow> process_member_table s t m = m ++ E"
proof -
  let ?obf = "obfuscated_class_marker sel"
  let ?req = "if mt = SEARGE
             then (if truthy (searge_class_marker sel) then searge_class_marker sel else ?obf)
             else class_name_markers sel mt"
  show ?thesis
  proof (cases "\<exists>ob rq. ?obf = Some ob \<and> ?req = Some rq \<and> ob \<noteq> [] \<and> rq \<noteq> []")
    case False
    have "\<forall>s m. detected_selectors s = sel \<and> mapping_type_requested s = mt
       \<longrightarrow> process_member_table s t m = m ++ Map.empty"
      using False by (auto simp add: process_member_table_def Let_def split: option.splits)
    then show ?thesis by blast
  next
    case True
    then obtain ob rq where m: "?obf = Some ob" "?req = Some rq" "ob \<noteq> []" "rq \<noteq> []" by blast
    obtain E where E: "\<forall>m. fold (process_member_row mt ob rq)
        (concat (map (xpath_child ''tr'') (xpath_child ''tbody'' t))) m = m ++ E"
      using fold_add [of "process_member_row mt ob rq", OF process_member_row_add] by blast
    have "\<forall>s m. detected_selectors s = sel \<and> mapping_type_requested s = mt
       \<longrightarrow> process_member_table s t m = m ++ E"
      using m E by (auto simp add: process_member_table_def Let_def)
    then show ?thesis by blast
  qed
qed

lemma process_members_add:
  "(\<exists>e. \<forall>s. detected_selectors s = sel \<and> mapping_type_requested s = mt
          \<longrightarrow> process_members s tree = Inl e)
   \<or> (\<exists>EF EM. \<forall>s. detected_selectors s = sel \<and> mapping_type_requested s = mt
          \<longrightarrow> process_members s tree =
                Inr (s\<lparr>field_mappings := field_mappings s ++ EF,
                       method_mappings := method_mappings s ++ EM\<rparr>))"
proof (cases "truthy (field_method_table_class sel)")
  case False
  then have "\<forall>s. detected_selectors s = sel \<and> mapping_type_requested s = mt
          \<longrightarrow> process_members s tree =
                Inr (s\<lparr>field_mappings := field_mappings s ++ Map.empty,
                       method_mappings := method_mappings s ++ Map.empty\<rparr>)"
    by (simp add: process_members_def)
  then show ?thesis by blast
next
  case True
  let ?conds = "class_conditions (case field_method_table_class sel of None \<Rightarrow> [] | Some c \<Rightarrow> c)"
  let ?F = "member_table_candidates ?conds ''Field summary'' tree"
  let ?M = "member_table_candidates ?conds ''Method summary'' tree"
  have tab: "\<exists>E. \<forall>s. detected_selectors s = sel \<and> mapping_type_requested s = mt
       \<longrightarrow> (case c of None \<Rightarrow> m s | Some t \<Rightarrow> process_member_table s t (m s)) = m s ++ E"
    for c :: "node option" and m :: "Mappings \<Rightarrow> (string \<rightharpoonup> string)"
  proof (cases c)
    case None
    then have "\<forall>s. detected_selectors s = sel \<and> mapping_type_requested s = mt
       \<longrightarrow> (case c of None \<Rightarrow> m s | Some t \<Rightarrow> process_member_table s t (m s)) = m s ++ Map.empty"
      by simp
    then show ?thesis by blast
  next
    case (Some t)
    from process_member_table_add [of sel mt t] obtain E
      where "\<forall>s m. detected_selectors s = sel \<and> mapping_type_requested s = mt
       \<longrightarrow> process_member_table s t m = m ++ E" by blast
    with Some have "\<forall>s. detected_selectors s = sel \<and> mapping_type_requested s = mt
       \<longrightarrow> (case c of None \<Rightarrow> m s | Some t \<Rightarrow> process_member_table s t (m s)) = m s ++ E"
      by simp
    then show ?thesis by blast
  qed
  show ?thesis
  proof (cases ?F)
    case (Inl e)
    with True have "\<forall>s. detected_selectors s = sel \<and> mapping_type_requested s = mt
          \<longrightarrow> process_members s tree = Inl e"
      by (simp add: process_members_def Let_def)
    then show ?thesis by blast
  next
    case F: (Inr ft)
    show ?thesis
    proof (cases ?M)
      case (Inl e)
      with True F have "\<forall>s. detected_selectors s = sel \<and> mapping_type_requested s = mt
          \<longrightarrow> process_members s tree = Inl e"
        by (simp add: process_members_def Let_def)
      then show ?thesis by blast
    next
      case M: (Inr mt')
      from tab [where c = ft and m = field_mappings] obtain EF where EF:
        "\<forall>s. detected_selectors s = sel \<and> mapping_type_requested s = mt
          \<longrightarrow> (case ft of None \<Rightarrow> field_mappings s
               | Some t \<Rightarrow> process_member_table s t (field_mappings s)) = field_mappings s ++ EF"
        by blast
      from tab [where c = mt' and m = method_mappings] obtain EM where EM:
        "\<forall>s. detected_selectors s = sel \<and> mapping_type_requested s = mt
          \<longrightarrow> (case mt' of None \<Rightarrow> method_mappings s
               | Some t \<Rightarrow> process_member_table s t (method_mappings s)) = method_mappings s ++ EM"
        by blast
      have "process_members s tree =
                Inr (s\<lparr>field_mappings := field_mappings s ++ EF,
                       method_mappings := method_mappings s ++ EM\<rparr>)"
        if s: "detected_selectors s = sel \<and> mapping_type_requested s = mt" for s
      proof -
        let ?s1 = "case ft of None \<Rightarrow> s
                   | Some t \<Rightarrow> s\<lparr>field_mappings := process_member_table s t (field_mappings s)\<rparr>"
        have s1: "?s1 = s\<lparr>field_mappings := field_mappings s ++ EF\<rparr>"
          using EF s by (cases ft) auto
        have s1': "detected_selectors ?s1 = sel \<and> mapping_type_requested ?s1 = mt"
          using s by (cases ft) auto
        have "(case mt' of None \<Rightarrow> ?s1
               | Some t \<Rightarrow> ?s1\<lparr>method_mappings := process_member_table ?s1 t (method_mappings ?s1)\<rparr>)
              = ?s1\<lparr>method_mappings := method_mappings ?s1 ++ EM\<rparr>"
          using EM s1' by (cases mt') auto
        then show ?thesis
          using True F M s unfolding s1
          by (simp add: process_members_def Let_def s1)
      qed
      then show ?thesis by blast
    qed
  qed
qed

lemma detect_selectors_searge:
  assumes "definition_tables tree = class_def_table # others"
  shows "searge_class_marker (detected_selectors (detect_selectors self tree)) =
     (case searge_class_marker (detected_selectors self) of
        Some x \<Rightarrow> Some x
      | None \<Rightarrow> second_dotted {} (xpath_descendant ''tr'' class_def_table))"
    and "class_name_markers (detected_selectors (detect_selectors self tree)) SEARGE =
     (case searge_class_marker (detected_selectors self) of
        Some x \<Rightarrow> class_name_markers (detected_selectors self) SEARGE
      | None \<Rightarrow> (case second_dotted {} (xpath_descendant ''tr'' class_def_table) of
                   None \<Rightarrow> class_name_markers (detected_selectors self) SEARGE
                 | Some m \<Rightarrow> Some m))"
    and "name_container_cell_class (detected_selectors (detect_selectors self tree)) =
      name_container_cell_class (detected_selectors self)"
  using detect_rows_searge [of "xpath_descendant ''tr'' class_def_table" "(detected_selectors self, {})"]
    detect_rows_rest [of "xpath_descendant ''tr'' class_def_table" "(detected_selectors self, {})"]
  by (simp_all add: detect_selectors_tables [OF assms] split: option.splits)

lemma detect_selectors_update:
  "detect_selectors self tree = self\<lparr>detected_selectors := detected_selectors (detect_selectors self tree)\<rparr>"
  by (simp add: detect_selectors_def Let_def split: list.splits)

lemma detect_selectors_depends:
  "detected_selectors s' = detected_selectors s
   \<Longrightarrow> detected_selectors (detect_selectors s' tree) = detected_selectors (detect_selectors s tree)"
  by (simp add: detect_selectors_def Let_def split: list.splits)

lemma detect_selectors_twice:
  "detected_selectors (detect_selectors (detect_selectors self tree) tree)
     = detected_selectors (detect_selectors self tree)"
proof (cases "definition_tables tree")
  case Nil
  then show ?thesis by (simp add: detect_selectors_no_tables)
next
  case (Cons t ts)
  let ?s1 = "detect_selectors self tree"
  let ?s2 = "detect_selectors ?s1 tree"
  have slot_eq: "slot k (detected_selectors ?s2) = slot k (detected_selectors ?s1)" for k
    by (simp add: detect_selectors_slot [OF Cons] split: list.splits)
  have cm: "class_name_markers (detected_selectors ?s2) = class_name_markers (detected_selectors ?s1)"
  proof
    fix k
    show "class_name_markers (detected_selectors ?s2) k = class_name_markers (detected_selectors ?s1) k"
    proof (cases k)
      case MOJANG
      with slot_eq [of Plain_dotted] show ?thesis by simp
    next
      case YARN
      with slot_eq [of Conventional_suffix] show ?thesis by simp
    next
      case INTERMEDIARY
      with slot_eq [of Numbered_placeholder] show ?thesis by simp
    next
      case SEARGE
      then show ?thesis
        by (simp add: detect_selectors_searge [OF Cons] split: option.splits)
    qed
  qed
  have ob: "obfuscated_class_marker (detected_selectors ?s2) = obfuscated_class_marker (detected_selectors ?s1)"
    using slot_eq [of Obfuscated_name] by simp
  have sg: "searge_class_marker (detected_selectors ?s2) = searge_class_marker (detected_selectors ?s1)"
    by (simp add: detect_selectors_searge [OF Cons] split: option.splits)
  have fm: "field_method_table_class (detected_selectors ?s2) = field_method_table_class (detected_selectors ?s1)"
    by (simp add: detect_selectors_table_class [OF Cons] split: option.splits)
  have nc: "name_container_cell_class (detected_selectors ?s2) = name_container_cell_class (detected_selectors ?s1)"
    by (simp add: detect_selectors_searge [OF Cons])
  show ?thesis
    by (rule selectors.equality) (simp_all add: cm ob sg fm nc)
qed

lemma detect_selectors_again:
  assumes "detected_selectors s = detected_selectors (detect_selectors self tree)"
  shows "detect_selectors s tree = s"
proof -
  have "detected_selectors (detect_selectors s tree)
      = detected_selectors (detect_selectors (detect_selectors self tree) tree)"
    by (rule detect_selectors_depends) (rule assms)
  then have "detected_selectors (detect_selectors s tree) = detected_selectors s"
    using detect_selectors_twice [of self tree] assms by simp
  then show ?thesis using detect_selectors_update [of s tree] by simp
qed

lemma extract_class_names_frame:
  "extract_class_names (s\<lparr>field_mappings := F, method_mappings := M\<rparr>) tree =
     (case extract_class_names s tree of (x, e) \<Rightarrow> (x\<lparr>field_mappings := F, method_mappings := M\<rparr>, e))"
  by (simp add: extract_class_names_def requested_type_marker_class_def Let_def
        split: option.splits list.splits)

lemma requested_type_marker_class_depends:
  "detected_selectors s' = detected_selectors s \<Longrightarrow> mapping_type_requested s' = mapping_type_requested s
   \<Longrightarrow> requested_type_marker_class s' = requested_type_marker_class s"
  by (simp add: requested_type_marker_class_def)

lemma extract_class_names_again:
  "extract_class_names (fst (extract_class_names s tree)) tree = extract_class_names s tree"
proof (cases "\<exists>ob rq. obfuscated_class_marker (detected_selectors s) = Some ob \<and> ob \<noteq> []
           \<and> requested_type_marker_class s = Some rq \<and> rq \<noteq> []")
  case False
  then have "fst (extract_class_names s tree) = s"
    by (auto simp add: extract_class_names_def split: option.splits)
  then show ?thesis by simp
next
  case True
  then obtain ob rq where m: "obfuscated_class_marker (detected_selectors s) = Some ob" "ob \<noteq> []"
    "requested_type_marker_class s = Some rq" "rq \<noteq> []" by blast
  let ?s' = "fst (extract_class_names s tree)"
  have sel: "detected_selectors ?s' = detected_selectors s"
    by (rule extract_class_names_selectors)
  have mt: "mapping_type_requested ?s' = mapping_type_requested s"
    by (simp add: extract_class_names_def Let_def split: option.splits list.splits)
  have m': "obfuscated_class_marker (detected_selectors ?s') = Some ob"
    "requested_type_marker_class ?s' = Some rq"
    using m sel requested_type_marker_class_depends [OF sel mt] by simp_all
  show ?thesis
    unfolding extract_class_names_resolved [OF m'(1) m(2) m'(2) m(4)]
    unfolding extract_class_names_resolved [OF m(1,2,3,4)] mt
    by (simp split: option.splits list.splits)
qed

lemma extract_class_names_keeps:
  "version (fst (extract_class_names s tree)) = version s"
  "mapping_type_requested (fst (extract_class_names s tree)) = mapping_type_requested s"
  by (simp_all add: extract_class_names_def Let_def split: option.splits list.splits)

lemma map_add_twice: "(m ++ e) ++ e = m ++ (e :: 'a \<rightharpoonup> 'b)"
  by (rule ext) (simp add: map_add_def split: option.splits)

text \<open>
  C10. Fetching the same class path again on the same engine from the same site gives
  the same outcome, exception or result, and leaves the engine as the first fetch left
  it: whatever state the engine starts in, the second result equals the first in both
  class names and in both dictionaries. (Two engines constructed with the same
  arguments are equal, so for them this is the determinism of \<open>fetch\<close>.)
\<close>

theorem fetch_idempotent:
  "fetch (fst (fetch self site class_path)) site class_path = fetch self site class_path"
proof (cases "site (url_of self class_path)")
  case (Inl e)
  then show ?thesis by (simp add: fetch_def)
next
  case (Inr tree)
  let ?s1 = "detect_selectors self tree"
  obtain s2 eo where x: "extract_class_names ?s1 tree = (s2, eo)"
    by (cases "extract_class_names ?s1 tree")
  have first: "fetch self site class_path =
     (case eo of
        Some e \<Rightarrow> (s2, Inl e)
      | None \<Rightarrow>
          (case process_members s2 tree of
             Inl e \<Rightarrow> (s2, Inl e)
           | Inr s3 \<Rightarrow> (s3, Inr (get s3))))"
    using fetch_tree [where site = site and self = self and class_path = class_path, OF Inr] x
    by (simp split: option.splits)
  have s2: "s2 = fst (extract_class_names ?s1 tree)" using x by simp
  have sel2: "detected_selectors s2 = detected_selectors ?s1"
    unfolding s2 by (rule extract_class_names_selectors)
  have ver2: "version s2 = version self"
    unfolding s2 by (simp add: extract_class_names_keeps detect_selectors_frame)
  have x2: "extract_class_names s2 tree = (s2, eo)"
    using extract_class_names_again [of ?s1 tree] x by simp
  have from_s: "fetch s site class_path =
     (case eo of
        Some e \<Rightarrow> (s, Inl e)
      | None \<Rightarrow>
          (case process_members s tree of
             Inl e \<Rightarrow> (s, Inl e)
           | Inr s3 \<Rightarrow> (s3, Inr (get s3))))"
    if s: "s = s2\<lparr>field_mappings := F, method_mappings := M\<rparr>" for s F M
  proof -
    have "version s = version self" using s ver2 by simp
    then have url: "site (url_of s class_path) = Inr tree" using Inr by (simp add: url_of_def)
    have "detected_selectors s = detected_selectors ?s1" using s sel2 by simp
    then have det: "detect_selectors s tree = s" by (rule detect_selectors_again)
    have "extract_class_names s tree = (s, eo)"
      unfolding s extract_class_names_frame x2 by simp
    then show ?thesis
      using fetch_tree [where site = site and self = s and class_path = class_path, OF url] det
      by (simp split: option.splits)
  qed
  show ?thesis
  proof (cases eo)
    case (Some e)
    then have "fetch self site class_path = (s2, Inl e)" using first by simp
    moreover have "fetch s2 site class_path = (s2, Inl e)"
      using from_s [where s = s2 and F = "field_mappings s2" and M = "method_mappings s2"] Some by simp
    ultimately show ?thesis by simp
  next
    case None
    from process_members_add [of "detected_selectors s2" "mapping_type_requested s2" tree]
    show ?thesis
    proof
      assume "\<exists>e. \<forall>s. detected_selectors s = detected_selectors s2
                 \<and> mapping_type_requested s = mapping_type_requested s2
                 \<longrightarrow> process_members s tree = Inl e"
      then obtain e where "process_members s2 tree = Inl e" by blast
      then have "fetch self site class_path = (s2, Inl e)"
        and "fetch s2 site class_path = (s2, Inl e)"
        using first from_s [where s = s2 and F = "field_mappings s2" and M = "method_mappings s2"] None by simp_all
      then show ?thesis by simp
    next
      assume "\<exists>EF EM. \<forall>s. detected_selectors s = detected_selectors s2
                 \<and> mapping_type_requested s = mapping_type_requested s2
                 \<longrightarrow> process_members s tree =
                       Inr (s\<lparr>field_mappings := field_mappings s ++ EF,
                              method_mappings := method_mappings s ++ EM\<rparr>)"
      then obtain EF EM where pm: "\<And>s. detected_selectors s = detected_selectors s2
                 \<Longrightarrow> mapping_type_requested s = mapping_type_requested s2
                 \<Longrightarrow> process_members s tree =
                       Inr (s\<lparr>field_mappings := field_mappings s ++ EF,
                              method_mappings := method_mappings s ++ EM\<rparr>)"
        by blast
      let ?s3 = "s2\<lparr>field_mappings := field_mappings s2 ++ EF,
                    method_mappings := method_mappings s2 ++ EM\<rparr>"
      have p2: "process_members s2 tree = Inr ?s3" by (rule pm) simp_all
      have "process_members ?s3 tree =
         Inr (?s3\<lparr>field_mappings := field_mappings ?s3 ++ EF,
                   method_mappings := method_mappings ?s3 ++ EM\<rparr>)"
        by (rule pm) simp_all
      then have p3: "process_members ?s3 tree = Inr ?s3"
        by (simp add: map_add_twice)
      have "fetch self site class_path = (?s3, Inr (get ?s3))"
        using first None p2 by simp
      moreover have "fetch ?s3 site class_path = (?s3, Inr (get ?s3))"
        using from_s [where s = ?s3 and F = "field_mappings s2 ++ EF" and M = "method_mappings s2 ++ EM"] None p3
        by simp
      ultimately show ?thesis by simp
    qed
  qed
qed


text \<open>
  On the page with a field summary the first fetch returns both class names and the
  entry of the complete row, under either kind of scheme, and the second fetch returns
  the same.
\<close>

lemma example_full_fetch_names:
  "res_class_name (projr (snd (fetch (new_engine ''1.20.1'' MOJANG) example_site ''Qux'')))
     = Some ''net.minecraft.Bar''
   \<and> res_obfuscated_class_name (projr (snd (fetch (new_engine ''1.20.1'' MOJANG) example_site ''Qux'')))
     = Some ''b''"
  by code_simp

lemma example_full_fetch_fields:
  "map (res_fields (projr (snd (fetch (new_engine ''1.20.1'' MOJANG) example_site ''Qux''))))
     [''player'', ''inherited'', ''field_1234_a'']
     = [Some ''bd'', None, None]"
  by code_simp

lemma example_full_fetch_flat:
  "map (res_fields (projr (snd (fetch (new_engine ''1.20.1'' SEARGE) example_site ''Qux''))))
     [''player'', ''inherited'', ''field_1234_a'']
     = [None, None, Some ''bd'']"
  by code_simp

theorem fetch_idempotent_witness:
  "fetch (fst (fetch (new_engine ''1.20.1'' MOJANG) example_site ''Qux'')) example_site ''Qux''
     = fetch (new_engine ''1.20.1'' MOJANG) example_site ''Qux''"
  by (rule fetch_idempotent)

end
